theory Spec2Isabelle
  imports Complex_Main
begin

section \<open>Natural-forest classification service: filename sanitising\<close>

text \<open>
  The repository holds two copies of the service: \<^verbatim>\<open>backend/lambda/lambda_function.py\<close>
  and \<^verbatim>\<open>lambda/lambda_function.py\<close>. A definition without suffix follows the first
  file; a definition whose name ends in \<open>_lambda\<close> follows the second file where the two
  differ.
\<close>

subsection \<open>\<^verbatim>\<open>sanitize_filename\<close> (the same in both files)\<close>

text \<open>
  \<^verbatim>\<open>os.path.basename\<close> on the POSIX platform of the service: everything after the last
  \<open>/\<close> (\<^verbatim>\<open>i = p.rfind('/') + 1; return p[i:]\<close>).
\<close>

definition basename :: "string \<Rightarrow> string" where
  "basename p = rev (takeWhile (\<lambda>c. c \<noteq> CHR ''/'') (rev p))"

definition safe_chars :: "char set" where
  "safe_chars = set ''abcdefghijklmnopqrstuvwxyzABCDEFGHIJKLMNOPQRSTUVWXYZ0123456789._-''"

definition sanitize_filename :: "string \<Rightarrow> string" where
  "sanitize_filename filename =
     map (\<lambda>c. if c \<in> safe_chars then c else CHR ''_'') (basename filename)"

text \<open>The key the upload operation derives: \<^verbatim>\<open>s3_key = f"uploads/{filename}"\<close>.\<close>

definition upload_s3_key :: "string \<Rightarrow> string" where
  "upload_s3_key filename = ''uploads/'' @ sanitize_filename filename"


section \<open>Tile planning\<close>

text \<open>
  In the geometry of tiles and canvas, Python numbers are modelled by exact reals:
  \<^verbatim>\<open>float\<close> rounding is not part of that model. \<^verbatim>\<open>math.cos\<close> and \<^verbatim>\<open>math.radians\<close>
  are the real cosine and the conversion from degrees.
\<close>

datatype py_error = ZeroDivisionError | ValueError | KeyError | FileNotFoundError

text \<open>
  A shapely \<^verbatim>\<open>box\<close>, held by its \<^verbatim>\<open>bounds\<close> \<open>(minx, miny, maxx, maxy)\<close>. The
  constructor orders the coordinates, as the bounds of the polygon it builds are ordered.
\<close>

record rect =
  minx :: real
  miny :: real
  maxx :: real
  maxy :: real

definition box :: "real \<Rightarrow> real \<Rightarrow> real \<Rightarrow> real \<Rightarrow> rect" where
  "box x0 y0 x1 y1 =
     \<lparr>minx = min x0 x1, miny = min y0 y1, maxx = max x0 x1, maxy = max y0 y1\<rparr>"

definition radians :: "real \<Rightarrow> real" where
  "radians d = d * pi / 180"

subsection \<open>\<^verbatim>\<open>split_boundary_box\<close> (the same in both files)\<close>

text \<open>
  \<^verbatim>\<open>lat_mid = (miny + maxy) / 2\<close>,
  \<^verbatim>\<open>km_per_deg_lon = 111 * math.cos(math.radians(lat_mid))\<close>,
  \<^verbatim>\<open>width_km = (maxx - minx) * km_per_deg_lon\<close>,
  \<^verbatim>\<open>height_km = (maxy - miny) * 111\<close>.
\<close>

definition width_km :: "rect \<Rightarrow> real" where
  "width_km b =
     (let lat_mid = (miny b + maxy b) / 2;
          km_per_deg_lon = 111 * cos (radians lat_mid)
      in (maxx b - minx b) * km_per_deg_lon)"

definition height_km :: "rect \<Rightarrow> real" where
  "height_km b = (let km_per_deg_lat = 111 in (maxy b - miny b) * km_per_deg_lat)"

text \<open>
  \<^verbatim>\<open>if width_km * height_km > 1000: max_size_km = min(60, max(30, max_size_km))\<close>
\<close>

definition adaptive_max_size_km :: "real \<Rightarrow> real \<Rightarrow> real \<Rightarrow> real" where
  "adaptive_max_size_km w h max_size_km =
     (if w * h > 1000 then min 60 (max 30 max_size_km) else max_size_km)"

text \<open>The rectangle built in the loop body for the grid cell \<open>(i, j)\<close>.\<close>

definition sub_rectangle :: "rect \<Rightarrow> real \<Rightarrow> real \<Rightarrow> nat \<Rightarrow> nat \<Rightarrow> rect" where
  "sub_rectangle b step_x step_y i j =
     (let sub_minx = minx b + real i * step_x;
          sub_maxx = minx b + (real i + 1) * step_x;
          sub_miny = miny b + real j * step_y;
          sub_maxy = miny b + (real j + 1) * step_y
      in box sub_minx sub_miny sub_maxx sub_maxy)"

text \<open>
  The numbers of columns and rows, \<^verbatim>\<open>math.ceil(width_km / max_size_km)\<close> and
  \<^verbatim>\<open>math.ceil(height_km / max_size_km)\<close>, with the adapted \<^verbatim>\<open>max_size_km\<close>.
\<close>

definition grid_counts :: "rect \<Rightarrow> real \<Rightarrow> int \<times> int" where
  "grid_counts b max_size_km =
     (let m = adaptive_max_size_km (width_km b) (height_km b) max_size_km
      in (\<lceil>width_km b / m\<rceil>, \<lceil>height_km b / m\<rceil>))"

text \<open>
  The polygon \<^verbatim>\<open>total_shapely_polygon\<close> is a global of the module and shapely's
  \<^verbatim>\<open>intersects\<close> is library code: the model takes the test
  \<^verbatim>\<open>rect.intersects(total_shapely_polygon)\<close> as the predicate \<open>intersects_polygon\<close>.
  The three divisions raise \<^verbatim>\<open>ZeroDivisionError\<close> on a zero divisor; \<^verbatim>\<open>range\<close> of a
  negative number is empty.
\<close>

definition split_boundary_box :: "(rect \<Rightarrow> bool) \<Rightarrow> rect \<Rightarrow> real \<Rightarrow> py_error + rect list" where
  "split_boundary_box intersects_polygon boundary_box max_size_km =
     (if width_km boundary_box \<le> max_size_km \<and> height_km boundary_box \<le> max_size_km
      then Inr [boundary_box]
      else
        let m = adaptive_max_size_km (width_km boundary_box) (height_km boundary_box) max_size_km
        in if m = 0 then Inl ZeroDivisionError
           else
             let (num_x, num_y) = grid_counts boundary_box max_size_km
             in if num_x = 0 \<or> num_y = 0 then Inl ZeroDivisionError
                else
                  let step_x = (maxx boundary_box - minx boundary_box) / real_of_int num_x;
                      step_y = (maxy boundary_box - miny boundary_box) / real_of_int num_y
                  in Inr (concat (map (\<lambda>i.
                            filter intersects_polygon
                              (map (\<lambda>j. sub_rectangle boundary_box step_x step_y i j)
                                 [0..<nat num_y]))
                          [0..<nat num_x])))"

text \<open>The points of a rectangle, and its interior: the vocabulary of the partition property.\<close>

definition rect_points :: "rect \<Rightarrow> (real \<times> real) set" where
  "rect_points r = {minx r..maxx r} \<times> {miny r..maxy r}"

definition rect_interior :: "rect \<Rightarrow> (real \<times> real) set" where
  "rect_interior r = {minx r<..<maxx r} \<times> {miny r<..<maxy r}"

text \<open>
  The sub-rectangles of the grid before the intersection test: the rectangles the two loops
  build, column by column.
\<close>

definition grid_rectangles :: "rect \<Rightarrow> real \<Rightarrow> rect list" where
  "grid_rectangles b max_size_km =
     (let (num_x, num_y) = grid_counts b max_size_km;
          step_x = (maxx b - minx b) / real_of_int num_x;
          step_y = (maxy b - miny b) / real_of_int num_y
      in map (\<lambda>(i, j). sub_rectangle b step_x step_y i j)
           (List.product [0..<nat num_x] [0..<nat num_y]))"

section \<open>Tile fetching\<close>

subsection \<open>\<^verbatim>\<open>export_sub_polygon_as_png\<close> (the same in both files)\<close>

text \<open>
  What one pass of the retry loop meets: \<open>Raised\<close> when \<^verbatim>\<open>getDownloadURL\<close> or
  \<^verbatim>\<open>requests.get\<close> raises; otherwise the response, with its status code and with the
  image that \<^verbatim>\<open>Image.open(...).convert('RGB')\<close> decodes from its content (\<open>None\<close> when
  decoding raises, which the \<^verbatim>\<open>except\<close> clause of the loop catches as well). The palette
  expression sent to the provider is opaque here.
\<close>

datatype 'img attempt = Raised | Response nat "'img option"

text \<open>What the loop leaves behind: the passes made and the seconds slept.\<close>

record fetch_log =
  attempts :: nat
  slept :: nat

definition backoff :: "fetch_log \<Rightarrow> fetch_log" where
  "backoff s = s\<lparr>attempts := attempts s + 1, slept := slept s + 2\<rparr>"

text \<open>
  \<^verbatim>\<open>for retry in range(max_retries)\<close>: \<open>retry\<close> is the index of the pass and the third
  argument the number of passes left. A pass that does not return sleeps two seconds.
\<close>

fun retry_loop :: "(nat \<Rightarrow> 'img attempt) \<Rightarrow> nat \<Rightarrow> nat \<Rightarrow> fetch_log \<Rightarrow> 'img option \<times> fetch_log" where
  "retry_loop outcome retry 0 s = (None, s)"
| "retry_loop outcome retry (Suc n) s =
     (case outcome retry of
        Raised \<Rightarrow> retry_loop outcome (Suc retry) n (backoff s)
      | Response status_code body \<Rightarrow>
          if status_code = 200 then
            (case body of
               Some img \<Rightarrow> (Some img, s\<lparr>attempts := attempts s + 1\<rparr>)
             | None \<Rightarrow> retry_loop outcome (Suc retry) n (backoff s))
          else retry_loop outcome (Suc retry) n (backoff s))"

definition export_sub_polygon_as_png :: "(nat \<Rightarrow> 'img attempt) \<Rightarrow> int \<Rightarrow> 'img option \<times> fetch_log" where
  "export_sub_polygon_as_png outcome max_retries =
     retry_loop outcome 0 (nat max_retries) \<lparr>attempts = 0, slept = 0\<rparr>"

definition default_max_retries :: int where
  "default_max_retries = 3"

text \<open>A pass succeeds when the status is 200 and the content decodes.\<close>

fun succeeds :: "'img attempt \<Rightarrow> bool" where
  "succeeds (Response status_code (Some img)) = (status_code = 200)"
| "succeeds _ = False"

section \<open>Protected-area masks\<close>

subsection \<open>\<^verbatim>\<open>get_protected_areas\<close> under \<^verbatim>\<open>lru_cache(maxsize=32)\<close> (the same in both files)\<close>

text \<open>
  The second argument is the acquisition date as the caller formats it,
  \<^verbatim>\<open>'YYYY-MM-dd'\<close>; the model holds it by its three numbers, which are in bijection with
  those strings. \<^verbatim>\<open>dt.strftime('%Y%m')\<close> keeps the year and the month.
\<close>

datatype date = Date (year: nat) (month: nat) (day: nat)

definition yyyymm :: "date \<Rightarrow> nat \<times> nat" where
  "yyyymm d = (year d, month d)"

text \<open>
  The collection a mask is computed from: \<^verbatim>\<open>WCMC/WDPA/{yyyymm}/polygons\<close>, or
  \<^verbatim>\<open>WCMC/WDPA/current/polygons\<close> when building the first raises.
\<close>

datatype wdpa_source = Monthly nat nat | Current

text \<open>
  The provider: whether \<^verbatim>\<open>ee.FeatureCollection\<close> raises for a month, and the mask it
  computes for a collection and a boundary.
\<close>

record 'm provider =
  collection_raises :: "nat \<Rightarrow> nat \<Rightarrow> bool"
  protected_mask :: "wdpa_source \<Rightarrow> string \<Rightarrow> 'm"

definition get_protected_areas_body :: "'m provider \<Rightarrow> string \<Rightarrow> date \<Rightarrow> 'm" where
  "get_protected_areas_body p boundary_wkt target_date =
     (let (y, m) = yyyymm target_date;
          wdpa = (if collection_raises p y m then Current else Monthly y m)
      in protected_mask p wdpa boundary_wkt)"

text \<open>
  The memo table of \<^verbatim>\<open>lru_cache\<close>, most recently used entry first, keyed by the tuple
  of the call's arguments, and the number of times the body has run.
\<close>

record 'm memo =
  cache :: "((string \<times> date) \<times> 'm) list"
  remote_calls :: nat

definition maxsize :: nat where
  "maxsize = 32"

definition get_protected_areas :: "'m provider \<Rightarrow> 'm memo \<Rightarrow> string \<Rightarrow> date \<Rightarrow> 'm \<times> 'm memo" where
  "get_protected_areas p s boundary_wkt target_date =
     (let key = (boundary_wkt, target_date)
      in case map_of (cache s) key of
           Some v \<Rightarrow> (v, s\<lparr>cache := (key, v) # filter (\<lambda>e. fst e \<noteq> key) (cache s)\<rparr>)
         | None \<Rightarrow>
             let v = get_protected_areas_body p boundary_wkt target_date
             in (v, \<lparr>cache = take maxsize ((key, v) # cache s),
                     remote_calls = remote_calls s + 1\<rparr>))"

section \<open>Area statistics\<close>

subsection \<open>Python dictionaries\<close>

text \<open>
  A dictionary that is iterated is an association list in insertion order: assigning to a
  key that is present replaces its value in place, assigning to a new key appends.
\<close>

fun dict_set :: "('k \<times> 'v) list \<Rightarrow> 'k \<Rightarrow> 'v \<Rightarrow> ('k \<times> 'v) list" where
  "dict_set [] k v = [(k, v)]"
| "dict_set ((k', v') # d) k v = (if k' = k then (k, v) # d else (k', v') # dict_set d k v)"

definition setdefault :: "('k \<times> 'v) list \<Rightarrow> 'k \<Rightarrow> 'v \<Rightarrow> ('k \<times> 'v) list" where
  "setdefault d k v = (if k \<in> fst ` set d then d else d @ [(k, v)])"

definition dict_get :: "('k \<times> 'v) list \<Rightarrow> 'k \<Rightarrow> py_error + 'v" where
  "dict_get d k = (case map_of d k of None \<Rightarrow> Inl KeyError | Some v \<Rightarrow> Inr v)"

subsection \<open>Python floats\<close>

text \<open>
  In the statistics, a Python \<^verbatim>\<open>float\<close> is a double, held by the real number it stands
  for. An operation computes the exact result and rounds it to the nearest double, a tie
  to the even significand of 53 bits (overflow and subnormal numbers are left out: the
  magnitudes of counts, proportions and areas are far from both).
\<close>

definition round_half_even :: "real \<Rightarrow> int" where
  "round_half_even y =
     (let f = \<lfloor>y\<rfloor>;
          d = y - of_int f
      in if d < 1 / 2 then f else if 1 / 2 < d then f + 1
         else if even f then f else f + 1)"

definition to_double :: "real \<Rightarrow> real" where
  "to_double x =
     (if x = 0 then 0
      else let e = \<lfloor>log 2 \<bar>x\<bar>\<rfloor> - 52
           in sgn x * of_int (round_half_even (\<bar>x\<bar> / 2 powr of_int e)) * 2 powr of_int e)"

definition fadd :: "real \<Rightarrow> real \<Rightarrow> real" where
  "fadd a b = to_double (a + b)"

definition fmul :: "real \<Rightarrow> real \<Rightarrow> real" where
  "fmul a b = to_double (a * b)"

definition fdiv :: "real \<Rightarrow> real \<Rightarrow> real" where
  "fdiv a b = to_double (a / b)"

text \<open>
  \<^verbatim>\<open>round(x, ndigits)\<close> of a double: its exact value is rounded to \<open>ndigits\<close> decimals, a
  tie to the even digit, and the decimal result is read back as a double.
\<close>

definition py_round :: "nat \<Rightarrow> real \<Rightarrow> real" where
  "py_round ndigits x = to_double (of_int (round_half_even (x * 10 ^ ndigits)) / 10 ^ ndigits)"

text \<open>
  \<^verbatim>\<open>sum(values)\<close>: the values are added one by one, from \<open>0\<close>, each addition rounded.
  (An interpreter that adds floats with a compensation term can differ from this in the
  last bit of a sum of fractional counts; for counts that are whole numbers the sum is
  exact either way, up to \<open>2 ^ 53\<close>.)
\<close>

definition py_sum :: "real list \<Rightarrow> real" where
  "py_sum vs = fold (\<lambda>v acc. fadd acc v) vs 0"

subsection \<open>\<^verbatim>\<open>calculate_area_statistics\<close> (first file)\<close>

text \<open>
  The eleven class names are fixed strings that only serve as dictionary keys; the model
  holds them as an enumeration: \<^verbatim>\<open>'water'\<close> is \<open>Water\<close>, \<^verbatim>\<open>'flooded_vegetation'\<close> is
  \<open>Flooded_vegetation\<close>, and so on.
\<close>

datatype class_name =
  Water | Trees | Grass | Flooded_vegetation | Crops | Shrub_and_scrub
  | Built | Bare | Snow_and_ice | Cloud | Natural_forest

definition CLASS_NAMES :: "class_name list" where
  "CLASS_NAMES = [Water, Trees, Grass, Flooded_vegetation, Crops, Shrub_and_scrub,
     Built, Bare, Snow_and_ice, Cloud, Natural_forest]"

text \<open>
  The histogram is what the provider answers for the frequency histogram of the band
  \<^verbatim>\<open>classification\<close> (\<^verbatim>\<open>or {}\<close> turns a missing answer into the empty one): its items
  in order, each key already read as the number \<^verbatim>\<open>int(k)\<close> of a class code.

  \<^verbatim>\<open>totals = {CLASS_NAMES[int(k)]: v for k, v in hist.items() if int(k) < len(CLASS_NAMES)}\<close>
\<close>

definition totals :: "(nat \<times> real) list \<Rightarrow> (class_name \<times> real) list" where
  "totals hist =
     fold (\<lambda>(k, v) d. if k < length CLASS_NAMES then dict_set d (CLASS_NAMES ! k) v else d) hist []"

definition pixel_sum :: "(nat \<times> real) list \<Rightarrow> real" where
  "pixel_sum hist = py_sum (map snd (totals hist))"

text \<open>
  The dictionary \<^verbatim>\<open>areas\<close> after both loops: one entry for each entry of \<^verbatim>\<open>totals\<close>,
  then \<^verbatim>\<open>setdefault(name, 0.0)\<close> for each class name.
\<close>

definition areas :: "(nat \<times> real) list \<Rightarrow> real \<Rightarrow> (class_name \<times> real) list" where
  "areas hist total_area =
     (let computed =
            fold (\<lambda>(k, v) d.
                    dict_set d k
                      (if pixel_sum hist \<noteq> 0
                       then py_round 5 (fmul (fdiv v (pixel_sum hist)) total_area)
                       else 0))
              (totals hist) []
      in fold (\<lambda>name d. setdefault d name 0) CLASS_NAMES computed)"

record class_entry =
  area_km2 :: real
  percentage :: real

record stats =
  date_of :: string
  total_area_km2 :: real
  forest_area_km2 :: real
  natural_forest_km2 :: real
  natural_forest_percentage :: real
  other_trees_km2 :: real
  other_trees_percentage :: real
  land_cover_classes :: "(class_name \<times> class_entry) list"

text \<open>
  \<^verbatim>\<open>sorted(areas.items(), key=lambda x: x[1], reverse=True)\<close> is a stable sort by
  descending value; only the entries with a positive value are reported.
\<close>

definition land_cover :: "(class_name \<times> real) list \<Rightarrow> real \<Rightarrow> (class_name \<times> class_entry) list" where
  "land_cover as total_area =
     fold (\<lambda>(name, val) d.
             if 0 < val
             then dict_set d name
                    \<lparr>area_km2 = val,
                     percentage =
                       (if total_area \<noteq> 0 then py_round 5 (fmul (fdiv val total_area) 100)
                        else 0)\<rparr>
             else d)
       (sort_key (\<lambda>(name, val). - val) as) []"

text \<open>\<^verbatim>\<open>os.path.join\<close> of a directory and a relative file name.\<close>

definition path_join :: "string \<Rightarrow> string \<Rightarrow> string" where
  "path_join dir name =
     (if dir = [] \<or> last dir = CHR ''/'' then dir @ name else dir @ ''/'' @ name)"

definition stats_file_name :: "string \<Rightarrow> string \<Rightarrow> string" where
  "stats_file_name output_dir image_date =
     path_join output_dir (''natural_forest_stats_'' @ image_date @ ''.json'')"

text \<open>
  The function returns the report and the name of the file it writes the report to; the
  caller of the model records the write.
\<close>

definition calculate_area_statistics ::
  "(nat \<times> real) list \<Rightarrow> real \<Rightarrow> string \<Rightarrow> string \<Rightarrow> py_error + (stats \<times> string)" where
  "calculate_area_statistics hist total_area image_date output_dir =
     (case dict_get (areas hist total_area) Natural_forest of
        Inl e \<Rightarrow> Inl e
      | Inr nf_area \<Rightarrow>
          (case dict_get (areas hist total_area) Trees of
             Inl e \<Rightarrow> Inl e
           | Inr tree_area \<Rightarrow>
               let total_forest = fadd nf_area tree_area
               in Inr (\<lparr>date_of = image_date,
                        total_area_km2 = py_round 5 total_area,
                        forest_area_km2 = py_round 5 total_forest,
                        natural_forest_km2 = py_round 5 nf_area,
                        natural_forest_percentage =
                          (if total_forest \<noteq> 0
                           then py_round 5 (fmul (fdiv nf_area total_forest) 100) else 0),
                        other_trees_km2 = py_round 5 tree_area,
                        other_trees_percentage =
                          (if total_forest \<noteq> 0
                           then py_round 5 (fmul (fdiv tree_area total_forest) 100) else 0),
                        land_cover_classes = land_cover (areas hist total_area) total_area\<rparr>,
                       stats_file_name output_dir image_date)))"


text \<open>
  The histogram of the worked example: 40 pixels of trees (code 1), 10 of natural forest
  (code 10) and 50 of water (code 0).
\<close>

definition example_hist :: "(nat \<times> real) list" where
  "example_hist = [(1, 40), (10, 10), (0, 50)]"


text \<open>The count a histogram holds for a class code, \<open>0\<close> for a code it does not hold.\<close>

definition count_of :: "(nat \<times> real) list \<Rightarrow> nat \<Rightarrow> real" where
  "count_of hist k = (case map_of hist k of Some v \<Rightarrow> v | None \<Rightarrow> 0)"

text \<open>
  The area of a class as the specification words it: with \<open>pixel_sum\<close> the sum of all
  counts of the histogram, \<^verbatim>\<open>round((count / pixel_sum) * ground_truth_area, 5)\<close> when
  \<open>pixel_sum > 0\<close>, and \<open>0\<close> otherwise.
\<close>

definition class_area :: "(nat \<times> real) list \<Rightarrow> real \<Rightarrow> nat \<Rightarrow> real" where
  "class_area hist ground_truth_area k =
     (if 0 < py_sum (map snd hist)
      then py_round 5 (fmul (fdiv (count_of hist k) (py_sum (map snd hist))) ground_truth_area)
      else 0)"

text \<open>
  A histogram whose proportions are not multiples of \<open>10\<^sup>-\<^sup>5\<close>: one pixel of water
  and 199999 of trees.
\<close>

definition fraction_hist :: "(nat \<times> real) list" where
  "fraction_hist = [(0, 1), (1, 199999)]"

section \<open>Mosaic\<close>

text \<open>\<^verbatim>\<open>int(x)\<close> of a float: truncation towards zero.\<close>

definition py_int :: "real \<Rightarrow> int" where
  "py_int x = (if 0 \<le> x then \<lfloor>x\<rfloor> else \<lceil>x\<rceil>)"

subsection \<open>Canvas size in \<^verbatim>\<open>merge_images_properly\<close>\<close>

text \<open>
  The extent of the box in metres and the first pixel size, the same in both files:
  \<^verbatim>\<open>scale = 10\<close>, or \<^verbatim>\<open>20\<close> when \<^verbatim>\<open>w_m * h_m > 1e9\<close>.
\<close>

definition width_m :: "rect \<Rightarrow> real" where
  "width_m b =
     (let lat_mid = (miny b + maxy b) / 2;
          m_per_deg_lon = 111000 * cos (radians lat_mid)
      in (maxx b - minx b) * m_per_deg_lon)"

definition height_m :: "rect \<Rightarrow> real" where
  "height_m b = (let m_per_deg_lat = 111000 in (maxy b - miny b) * m_per_deg_lat)"

definition initial_scale :: "rect \<Rightarrow> real" where
  "initial_scale b = (if width_m b * height_m b > 1000000000 then 20 else 10)"

definition max_dim :: int where
  "max_dim = 5000"

text \<open>
  First file:
  \<^verbatim>\<open>w_px = int(w_m/scale); h_px = int(h_m/scale)\<close>, then, when one of them exceeds
  \<^verbatim>\<open>max_dim\<close>, \<^verbatim>\<open>factor = max(w_px/max_dim, h_px/max_dim)\<close>,
  \<^verbatim>\<open>w_px = int(w_px/factor)\<close>, \<^verbatim>\<open>h_px = int(h_px/factor)\<close>.
\<close>

definition downscale :: "int \<Rightarrow> int \<Rightarrow> int \<times> int" where
  "downscale w_px h_px =
     (if w_px > max_dim \<or> h_px > max_dim
      then let factor = max (real_of_int w_px / real_of_int max_dim)
                            (real_of_int h_px / real_of_int max_dim)
           in (py_int (real_of_int w_px / factor), py_int (real_of_int h_px / factor))
      else (w_px, h_px))"

definition canvas_size :: "rect \<Rightarrow> int \<times> int" where
  "canvas_size b =
     (let scale = initial_scale b;
          w_px = py_int (width_m b / scale);
          h_px = py_int (height_m b / scale)
      in downscale w_px h_px)"

text \<open>
  Second file: the factor is stored in \<^verbatim>\<open>scale_factor\<close>, and the height is computed from
  the height in metres:
  \<^verbatim>\<open>scale_factor = max(width_pixels / max_dimension, height_pixels / max_dimension)\<close>,
  \<^verbatim>\<open>width_pixels = int(width_pixels / scale_factor)\<close>,
  \<^verbatim>\<open>height_pixels = int(height_m / scale_factor)\<close>.
\<close>

definition canvas_size_lambda :: "rect \<Rightarrow> int \<times> int" where
  "canvas_size_lambda b =
     (let scale_factor = initial_scale b;
          width_pixels = py_int (width_m b / scale_factor);
          height_pixels = py_int (height_m b / scale_factor)
      in if width_pixels > max_dim \<or> height_pixels > max_dim
         then let scale_factor = max (real_of_int width_pixels / real_of_int max_dim)
                                     (real_of_int height_pixels / real_of_int max_dim)
              in (py_int (real_of_int width_pixels / scale_factor),
                  py_int (height_m b / scale_factor))
         else (width_pixels, height_pixels))"

text \<open>
  The box of 120 km by 120 km on the equator: \<open>120 / 111\<close> degrees of longitude and of
  latitude.
\<close>

definition example_box_120km :: rect where
  "example_box_120km = box 0 (- (60 / 111)) (120 / 111) (60 / 111)"

subsection \<open>\<^verbatim>\<open>merge_images_properly\<close>\<close>

text \<open>
  What \<^verbatim>\<open>process_sub_polygon\<close> returns for a tile that was fetched: the dictionary with
  the tile's index, image and rectangle.
\<close>

record 'img tile_result =
  index :: nat
  png_image :: "'img"
  shapely_sub_rect :: rect

text \<open>
  The name of the image file,
  \<^verbatim>\<open>f"{image_date}-{lat_long}-natural_forest_classification.png"\<close> in \<^verbatim>\<open>output_dir\<close>,
  held by its parts: the text of \<^verbatim>\<open>lat_long\<close> is the two centre coordinates, rounded to two
  decimals and printed with sign.
\<close>

record image_file =
  image_dir :: string
  image_day :: string
  center_lat :: real
  center_lon :: real

definition py_round2 :: "real \<Rightarrow> real" where
  "py_round2 x =
     (let y = x * 100;
          f = \<lfloor>y\<rfloor>;
          d = y - of_int f
      in of_int (if d < 1 / 2 then f else if 1 / 2 < d then f + 1
                 else if even f then f else f + 1) / 100)"

definition image_file_name :: "rect \<Rightarrow> string \<Rightarrow> string \<Rightarrow> image_file" where
  "image_file_name b output_dir image_date =
     \<lparr>image_dir = output_dir, image_day = image_date,
      center_lat = py_round2 ((miny b + maxy b) / 2),
      center_lon = py_round2 ((minx b + maxx b) / 2)\<rparr>"

text \<open>
  The mosaic that is written: the canvas size, and for each tile pasted its index, the
  offset and the size it is resized to. Pixels, the boundary mask and the legend are
  imaging-library work and are not modelled.
\<close>

record mosaic =
  canvas :: "int \<times> int"
  pastes :: "(nat \<times> (int \<times> int) \<times> (int \<times> int)) list"
  outfile :: image_file

text \<open>
  First file: \<^verbatim>\<open>geo2px\<close> is not clamped. Its two divisions raise when the box has no
  width or no height.
\<close>

definition geo2px :: "rect \<Rightarrow> int \<times> int \<Rightarrow> real \<Rightarrow> real \<Rightarrow> py_error + (int \<times> int)" where
  "geo2px b size_px lon lat =
     (if maxx b - minx b = 0 \<or> maxy b - miny b = 0 then Inl ZeroDivisionError
      else Inr (py_int ((lon - minx b) / (maxx b - minx b) * real_of_int (fst size_px)),
                py_int ((maxy b - lat) / (maxy b - miny b) * real_of_int (snd size_px))))"

text \<open>Second file: the pixel is clamped into the canvas.\<close>

definition geo_to_pixel_lambda :: "rect \<Rightarrow> int \<times> int \<Rightarrow> real \<Rightarrow> real \<Rightarrow> py_error + (int \<times> int)" where
  "geo_to_pixel_lambda b size_px lon lat =
     (case geo2px b size_px lon lat of
        Inl e \<Rightarrow> Inl e
      | Inr (x, y) \<Rightarrow> Inr (max 0 (min x (fst size_px - 1)), max 0 (min y (snd size_px - 1))))"

text \<open>
  The loop over the results: a tile whose target rectangle has no positive width or height
  is skipped.
\<close>

fun paste_all ::
  "(real \<Rightarrow> real \<Rightarrow> py_error + (int \<times> int)) \<Rightarrow> 'img tile_result list \<Rightarrow>
   py_error + (nat \<times> (int \<times> int) \<times> (int \<times> int)) list" where
  "paste_all to_px [] = Inr []"
| "paste_all to_px (res # rest) =
     (let r = shapely_sub_rect res in
      case to_px (minx r) (maxy r) of
        Inl e \<Rightarrow> Inl e
      | Inr (x1, y1) \<Rightarrow>
          (case to_px (maxx r) (miny r) of
             Inl e \<Rightarrow> Inl e
           | Inr (x2, y2) \<Rightarrow>
               (case paste_all to_px rest of
                  Inl e \<Rightarrow> Inl e
                | Inr ps \<Rightarrow>
                    if x2 - x1 \<le> 0 \<or> y2 - y1 \<le> 0 then Inr ps
                    else Inr ((index res, (x1, y1), (x2 - x1, y2 - y1)) # ps))))"

text \<open>
  \<^verbatim>\<open>Image.new\<close> refuses a negative size with \<^verbatim>\<open>ValueError\<close>. The function returns
  \<^verbatim>\<open>None\<close> when no result is left after dropping the missing ones, before anything else.
\<close>

definition merge_images_properly ::
  "rect \<Rightarrow> 'img tile_result option list \<Rightarrow> string \<Rightarrow> string \<Rightarrow> py_error + mosaic option" where
  "merge_images_properly boundary_box results output_dir image_date =
     (let results = List.map_filter (\<lambda>r. r) results in
      if results = [] then Inr None
      else
        let size_px = canvas_size boundary_box in
        if fst size_px < 0 \<or> snd size_px < 0 then Inl ValueError
        else
          case paste_all (geo2px boundary_box size_px) results of
            Inl e \<Rightarrow> Inl e
          | Inr ps \<Rightarrow>
              Inr (Some \<lparr>canvas = size_px, pastes = ps,
                         outfile = image_file_name boundary_box output_dir image_date\<rparr>))"

definition merge_images_properly_lambda ::
  "rect \<Rightarrow> 'img tile_result option list \<Rightarrow> string \<Rightarrow> string \<Rightarrow> py_error + mosaic option" where
  "merge_images_properly_lambda boundary_box results output_dir image_date =
     (let results = List.map_filter (\<lambda>r. r) results in
      if results = [] then Inr None
      else
        let size_px = canvas_size_lambda boundary_box in
        if fst size_px < 0 \<or> snd size_px < 0 then Inl ValueError
        else
          case paste_all (geo_to_pixel_lambda boundary_box size_px) results of
            Inl e \<Rightarrow> Inl e
          | Inr ps \<Rightarrow>
              Inr (Some \<lparr>canvas = size_px, pastes = ps,
                         outfile = image_file_name boundary_box output_dir image_date\<rparr>))"

section \<open>The run\<close>

text \<open>
  A Sentinel-2 scene, by the two properties the run reads: \<^verbatim>\<open>CLOUDY_PIXEL_PERCENTAGE\<close>
  and the day of \<^verbatim>\<open>system:time_start\<close>.
\<close>

record scene =
  cloudy_pixel_percentage :: real
  time_start :: string

text \<open>
  What one analysis run meets: the boundary loaded from the request's file (box, the
  intersection test of its polygon, ground-truth area) and the provider's answers (the
  Sentinel-2 scenes of the date range over the boundary, the number of Dynamic World
  images, the class histogram over the boundary, and for each tile the outcomes of the
  successive download passes).
\<close>

record 'img run =
  bbox :: rect
  intersects_polygon :: "rect \<Rightarrow> bool"
  CORRECT_AREA :: real
  scenes :: "scene list"
  dw_size :: nat
  histogram :: "(nat \<times> real) list"
  tile_attempts :: "nat \<Rightarrow> nat \<Rightarrow> 'img attempt"

text \<open>
  The collection \<^verbatim>\<open>s2\<close> of both files: the scenes with
  \<^verbatim>\<open>CLOUDY_PIXEL_PERCENTAGE < 35\<close>, sorted by that property. The run reads its size, and
  from its first scene the cloud cover and the date (both only after the size was found
  not to be \<open>0\<close>).
\<close>

definition s2 :: "'img run \<Rightarrow> scene list" where
  "s2 env =
     sort_key cloudy_pixel_percentage
       (filter (\<lambda>image. cloudy_pixel_percentage image < 35) (scenes env))"

definition s2_size :: "'img run \<Rightarrow> nat" where
  "s2_size env = length (s2 env)"

definition cloud_cover :: "'img run \<Rightarrow> real" where
  "cloud_cover env =
     (case s2 env of [] \<Rightarrow> 0 | first_image # _ \<Rightarrow> cloudy_pixel_percentage first_image)"

definition scene_date :: "'img run \<Rightarrow> string" where
  "scene_date env = (case s2 env of [] \<Rightarrow> [] | first_image # _ \<Rightarrow> time_start first_image)"

subsection \<open>\<^verbatim>\<open>process_sub_polygon\<close> and \<^verbatim>\<open>process_and_export_image\<close>\<close>

definition process_sub_polygon :: "'img run \<Rightarrow> nat \<times> rect \<Rightarrow> 'img tile_result option" where
  "process_sub_polygon env args =
     (let (index, shapely_rect) = args in
      case fst (export_sub_polygon_as_png (tile_attempts env index) default_max_retries) of
        None \<Rightarrow> None
      | Some img \<Rightarrow> Some \<lparr>index = index, png_image = img, shapely_sub_rect = shapely_rect\<rparr>)"

text \<open>
  The tiles are fetched by a thread pool of \<^verbatim>\<open>min(10, len(sub_rects))\<close> workers, which
  \<^verbatim>\<open>ThreadPoolExecutor\<close> refuses with \<^verbatim>\<open>ValueError\<close> when that number is \<open>0\<close>. The results
  are collected as the workers finish; the model lists them in the order of the tiles.
\<close>

definition fetch_all :: "'img run \<Rightarrow> rect list \<Rightarrow> 'img tile_result option list" where
  "fetch_all env sub_rects =
     filter (\<lambda>res. res \<noteq> None) (map (process_sub_polygon env) (enumerate 0 sub_rects))"

definition process_and_export_image :: "'img run \<Rightarrow> string \<Rightarrow> string \<Rightarrow> py_error + mosaic option" where
  "process_and_export_image env image_date output_dir =
     (case split_boundary_box (intersects_polygon env) (bbox env) 30 of
        Inl e \<Rightarrow> Inl e
      | Inr sub_rects \<Rightarrow>
          if min 10 (length sub_rects) = 0 then Inl ValueError
          else merge_images_properly (bbox env) (fetch_all env sub_rects)
                 output_dir image_date)"

text \<open>Second file: \<^verbatim>\<open>if not results: return None\<close> comes before the merge.\<close>

definition process_and_export_image_lambda :: "'img run \<Rightarrow> string \<Rightarrow> string \<Rightarrow> py_error + mosaic option" where
  "process_and_export_image_lambda env image_date output_dir =
     (case split_boundary_box (intersects_polygon env) (bbox env) 30 of
        Inl e \<Rightarrow> Inl e
      | Inr sub_rects \<Rightarrow>
          if min 10 (length sub_rects) = 0 then Inl ValueError
          else let results = fetch_all env sub_rects in
               if results = [] then Inr None
               else merge_images_properly_lambda (bbox env) results
                      output_dir image_date)"


subsection \<open>\<^verbatim>\<open>calculate_area_statistics\<close> (second file)\<close>

text \<open>
  The second file adds up \<^verbatim>\<open>total_pixels\<close> in the loop over the histogram, tests it and
  the other divisors with \<^verbatim>\<open>> 0\<close>, and rounds the reported area once more.
\<close>

definition class_pixels_lambda :: "(nat \<times> real) list \<Rightarrow> (class_name \<times> real) list \<times> real" where
  "class_pixels_lambda hist =
     fold (\<lambda>(class_idx, pixel_count) (class_pixels, total_pixels).
             if class_idx < length CLASS_NAMES
             then (dict_set class_pixels (CLASS_NAMES ! class_idx) pixel_count,
                   fadd total_pixels pixel_count)
             else (class_pixels, total_pixels))
       hist ([], 0)"

definition class_areas_lambda :: "(nat \<times> real) list \<Rightarrow> real \<Rightarrow> (class_name \<times> real) list" where
  "class_areas_lambda hist total_area =
     (let (class_pixels, total_pixels) = class_pixels_lambda hist;
          computed =
            fold (\<lambda>(class_name, pixels) d.
                    let proportion = (if total_pixels > 0 then fdiv pixels total_pixels else 0)
                    in dict_set d class_name (py_round 5 (fmul proportion total_area)))
              class_pixels []
      in fold (\<lambda>name d. setdefault d name 0) CLASS_NAMES computed)"

definition land_cover_lambda :: "(class_name \<times> real) list \<Rightarrow> real \<Rightarrow> (class_name \<times> class_entry) list" where
  "land_cover_lambda as total_area =
     fold (\<lambda>(name, val) d.
             if 0 < val
             then let pct = (if total_area > 0 then fmul (fdiv val total_area) 100 else 0)
                  in dict_set d name \<lparr>area_km2 = py_round 5 val, percentage = py_round 5 pct\<rparr>
             else d)
       (sort_key (\<lambda>(name, val). - val) as) []"

definition calculate_area_statistics_lambda ::
  "(nat \<times> real) list \<Rightarrow> real \<Rightarrow> string \<Rightarrow> string \<Rightarrow> py_error + (stats \<times> string)" where
  "calculate_area_statistics_lambda hist total_area image_date output_dir =
     (case dict_get (class_areas_lambda hist total_area) Natural_forest of
        Inl e \<Rightarrow> Inl e
      | Inr natural_forest_area \<Rightarrow>
          (case dict_get (class_areas_lambda hist total_area) Trees of
             Inl e \<Rightarrow> Inl e
           | Inr trees_area \<Rightarrow>
               let total_forest_area = fadd natural_forest_area trees_area
               in Inr (\<lparr>date_of = image_date,
                        total_area_km2 = py_round 5 total_area,
                        forest_area_km2 = py_round 5 total_forest_area,
                        natural_forest_km2 = py_round 5 natural_forest_area,
                        natural_forest_percentage =
                          (if total_forest_area > 0
                           then py_round 5 (fmul (fdiv natural_forest_area total_forest_area) 100)
                           else 0),
                        other_trees_km2 = py_round 5 trees_area,
                        other_trees_percentage =
                          (if total_forest_area > 0
                           then py_round 5 (fmul (fdiv trees_area total_forest_area) 100)
                           else 0),
                        land_cover_classes =
                          land_cover_lambda (class_areas_lambda hist total_area) total_area\<rparr>,
                       stats_file_name output_dir image_date)))"

subsection \<open>\<^verbatim>\<open>process_natural_forest_classification\<close>\<close>

text \<open>The files a run writes into \<^verbatim>\<open>output_dir\<close>, with their content.\<close>

datatype artifact = Stats_json string stats | Classification_png mosaic

text \<open>
  The result is the value returned or the exception raised, together with the files
  written up to there. The classification image, the protected-area mask and the enhanced
  classification are expressions evaluated by the provider; the run sees them through the
  histogram and the tiles.

  First file: no scene, a cloud cover above \<open>1\<close> and no Dynamic World image each return
  \<^verbatim>\<open>None\<close> before anything is written.
\<close>

definition process_natural_forest_classification ::
  "'img run \<Rightarrow> string \<Rightarrow>
   (py_error + (image_file option \<times> string \<times> string) option) \<times> artifact list" where
  "process_natural_forest_classification env output_dir =
     (if s2_size env = 0 then (Inr None, [])
      else if cloud_cover env > 1 then (Inr None, [])
      else if dw_size env = 0 then (Inr None, [])
      else
        case calculate_area_statistics (histogram env) (CORRECT_AREA env) (scene_date env) output_dir of
          Inl e \<Rightarrow> (Inl e, [])
        | Inr (stats_data, stats_file) \<Rightarrow>
            (case process_and_export_image env (scene_date env) output_dir of
               Inl e \<Rightarrow> (Inl e, [Stats_json stats_file stats_data])
             | Inr None \<Rightarrow>
                 (Inr (Some (None, stats_file, scene_date env)), [Stats_json stats_file stats_data])
             | Inr (Some m) \<Rightarrow>
                 (Inr (Some (Some (outfile m), stats_file, scene_date env)),
                  [Stats_json stats_file stats_data, Classification_png m])))"

text \<open>
  Second file: the cloud cover of the first scene is read and printed and is not tested;
  the only cloud threshold of this file is the \<open>35\<close> of the collection filter, through the
  size of the collection.
\<close>

definition process_natural_forest_classification_lambda ::
  "'img run \<Rightarrow> string \<Rightarrow>
   (py_error + (image_file option \<times> string \<times> string) option) \<times> artifact list" where
  "process_natural_forest_classification_lambda env output_dir =
     (if s2_size env = 0 then (Inr None, [])
      else if dw_size env = 0 then (Inr None, [])
      else
        case calculate_area_statistics_lambda (histogram env) (CORRECT_AREA env) (scene_date env)
               output_dir of
          Inl e \<Rightarrow> (Inl e, [])
        | Inr (stats_data, stats_file) \<Rightarrow>
            (case process_and_export_image_lambda env (scene_date env) output_dir of
               Inl e \<Rightarrow> (Inl e, [Stats_json stats_file stats_data])
             | Inr None \<Rightarrow>
                 (Inr (Some (None, stats_file, scene_date env)), [Stats_json stats_file stats_data])
             | Inr (Some m) \<Rightarrow>
                 (Inr (Some (Some (outfile m), stats_file, scene_date env)),
                  [Stats_json stats_file stats_data, Classification_png m])))"

subsection \<open>The analysis operation of \<^verbatim>\<open>lambda_handler\<close>\<close>

text \<open>
  The handler from the call of \<^verbatim>\<open>process_natural_forest_classification\<close> on, for an
  analysis request that names a file. The response is the status code and the body; an
  exception is answered by the \<^verbatim>\<open>except\<close> clause with status 500 and its text.
\<close>

datatype message = Text string | Exception_text py_error

datatype body = Error_body message | Success_body string stats

record response =
  statusCode :: nat
  body :: body

text \<open>
  \<^verbatim>\<open>'Cloud cover too high\<emdash>try another range'\<close>, the dash in UTF-8, and the text of
  the second file.
\<close>

definition cloud_message :: string where
  "cloud_message = ''Cloud cover too high'' @ [CHR 0xE2, CHR 0x80, CHR 0x94] @ ''try another range''"


definition read_stats :: "artifact list \<Rightarrow> string \<Rightarrow> py_error + stats" where
  "read_stats written name =
     (case List.map_filter
        (\<lambda>a. case a of Stats_json n st \<Rightarrow> (if n = name then Some st else None)
                       | Classification_png m \<Rightarrow> None) written of
        [] \<Rightarrow> Inl FileNotFoundError
      | st # _ \<Rightarrow> Inr st)"

text \<open>
  The image is uploaded first; \<^verbatim>\<open>s3.upload_file\<close> raises \<^verbatim>\<open>ValueError\<close> for a file
  name that is \<^verbatim>\<open>None\<close>. The second component is what has been uploaded.
\<close>

definition upload_and_answer ::
  "artifact list \<Rightarrow> image_file option \<times> string \<times> string \<Rightarrow> response \<times> artifact list" where
  "upload_and_answer written result =
     (let (image_file, stats_file, image_date) = result in
      case image_file of
        None \<Rightarrow> (\<lparr>statusCode = 500, body = Error_body (Exception_text ValueError)\<rparr>, [])
      | Some f \<Rightarrow>
          let uploaded =
                filter (\<lambda>a. case a of Classification_png m \<Rightarrow> outfile m = f
                                   | Stats_json n st \<Rightarrow> n = stats_file) written
          in case read_stats written stats_file of
               Inl e \<Rightarrow> (\<lparr>statusCode = 500, body = Error_body (Exception_text e)\<rparr>, uploaded)
             | Inr stats_data \<Rightarrow>
                 (\<lparr>statusCode = 200, body = Success_body image_date stats_data\<rparr>, uploaded))"

definition lambda_handler_analysis :: "'img run \<Rightarrow> response \<times> artifact list" where
  "lambda_handler_analysis env =
     (case process_natural_forest_classification env ''/tmp/forest_classification'' of
        (Inl e, written) \<Rightarrow> (\<lparr>statusCode = 500, body = Error_body (Exception_text e)\<rparr>, [])
      | (Inr None, written) \<Rightarrow> (\<lparr>statusCode = 400, body = Error_body (Text cloud_message)\<rparr>, [])
      | (Inr (Some result), written) \<Rightarrow> upload_and_answer written result)"



subsection \<open>Runs used as examples\<close>

text \<open>
  A run over a box of 11.1 km by 11.1 km on the equator with the histogram of the worked
  example, one scene with a cloud cover of 30 percent, and tiles that download at the
  first pass.
\<close>

definition cloudy_run :: "nat run" where
  "cloudy_run =
     \<lparr>bbox = box 0 (- (1/20)) (1/10) (1/20), intersects_polygon = (\<lambda>r. True),
      CORRECT_AREA = 100,
      scenes = [\<lparr>cloudy_pixel_percentage = 30, time_start = ''2024-05-01''\<rparr>],
      dw_size = 1, histogram = example_hist,
      tile_attempts = (\<lambda>i k. Response 200 (Some 0))\<rparr>"


text \<open>The same box under a clear sky, with every download pass answered by status 503.\<close>

definition failing_run :: "nat run" where
  "failing_run =
     \<lparr>bbox = box 0 (- (1/20)) (1/10) (1/20), intersects_polygon = (\<lambda>r. True),
      CORRECT_AREA = 100,
      scenes = [\<lparr>cloudy_pixel_percentage = 0, time_start = ''2024-05-01''\<rparr>],
      dw_size = 1, histogram = example_hist,
      tile_attempts = (\<lambda>i k. Response 503 None)\<rparr>"


text \<open>
  Every planned tile fails: each of the \<^verbatim>\<open>max_retries\<close> passes of each tile of the plan
  is a failure.
\<close>

definition all_tiles_fail :: "'img run \<Rightarrow> bool" where
  "all_tiles_fail env =
     (case split_boundary_box (intersects_polygon env) (bbox env) 30 of
        Inl e \<Rightarrow> True
      | Inr sub_rects \<Rightarrow>
          list_all (\<lambda>i. list_all (\<lambda>k. \<not> succeeds (tile_attempts env i k))
                            [0..<nat default_max_retries])
            [0..<length sub_rects])"

section \<open>Theorems\<close>

subsection \<open>Filename sanitising\<close>

lemma underscore_safe: "CHR ''_'' \<in> safe_chars"
  by (simp add: safe_chars_def)

lemma slash_unsafe: "CHR ''/'' \<notin> safe_chars"
  by (simp add: safe_chars_def)

lemma backslash_unsafe: "CHR 0x5C \<notin> safe_chars"
  by (simp add: safe_chars_def)

lemma sanitize_filename_subset: "set (sanitize_filename f) \<subseteq> safe_chars"
  by (auto simp: sanitize_filename_def underscore_safe)

lemma basename_no_slash: "CHR ''/'' \<notin> set (basename p)"
proof
  assume "CHR ''/'' \<in> set (basename p)"
  then have "CHR ''/'' \<in> set (takeWhile (\<lambda>c. c \<noteq> CHR ''/'') (rev p))"
    by (simp add: basename_def)
  then show False
    by (auto dest: set_takeWhileD)
qed

lemma basename_suffix: "\<exists>d. p = d @ basename p"
proof -
  have "rev p = takeWhile (\<lambda>c. c \<noteq> CHR ''/'') (rev p) @ dropWhile (\<lambda>c. c \<noteq> CHR ''/'') (rev p)"
    by simp
  then have "p = rev (dropWhile (\<lambda>c. c \<noteq> CHR ''/'') (rev p)) @ basename p"
    unfolding basename_def by (metis rev_append rev_rev_ident)
  then show ?thesis ..
qed

text \<open>
  Claim C10. For every input string, \<open>sanitize_filename\<close> applies \<open>basename\<close> first and
  returns a string made only of ASCII letters, digits, \<open>.\<close>, \<open>_\<close> and \<open>-\<close>; neither
  \<open>/\<close> nor the backslash occurs in it, so the upload key is \<open>uploads/\<close> followed by a
  name without any path separator.
\<close>

theorem sanitize_filename_safe:
  "set (sanitize_filename f) \<subseteq> safe_chars
   \<and> sanitize_filename f = map (\<lambda>c. if c \<in> safe_chars then c else CHR ''_'') (basename f)
   \<and> length (sanitize_filename f) = length (basename f)
   \<and> CHR ''/'' \<notin> set (sanitize_filename f)
   \<and> CHR 0x5C \<notin> set (sanitize_filename f)
   \<and> take 8 (upload_s3_key f) = ''uploads/''
   \<and> CHR ''/'' \<notin> set (drop 8 (upload_s3_key f))
   \<and> CHR 0x5C \<notin> set (drop 8 (upload_s3_key f))"
proof -
  have sub: "set (sanitize_filename f) \<subseteq> safe_chars"
    by (rule sanitize_filename_subset)
  have s: "CHR ''/'' \<notin> set (sanitize_filename f)"
    using sub slash_unsafe by blast
  have b: "CHR 0x5C \<notin> set (sanitize_filename f)"
    using sub backslash_unsafe by blast
  have d: "drop 8 (upload_s3_key f) = sanitize_filename f"
    by (simp add: upload_s3_key_def)
  have t: "take 8 (upload_s3_key f) = ''uploads/''"
    by (simp add: upload_s3_key_def)
  show ?thesis
    using sub s b d t by (simp add: sanitize_filename_def)
qed

theorem sanitize_filename_safe_witness:
  "sanitize_filename ''../../etc/pass wd'' = ''pass_wd''
   \<and> upload_s3_key ''../../etc/pass wd'' = ''uploads/pass_wd''
   \<and> set (sanitize_filename ''../../etc/pass wd'') \<subseteq> safe_chars"
  using sanitize_filename_safe [of "''../../etc/pass wd''"]
  by (simp add: sanitize_filename_def upload_s3_key_def basename_def safe_chars_def)

subsection \<open>Tile planning\<close>

lemma cos_radians_pos:
  assumes "- 90 < d" "d < 90"
  shows "0 < cos (radians d)"
proof -
  have "pi * (- 90) < pi * d" "pi * d < pi * 90"
    using assms pi_gt_zero by (simp_all only: mult_less_cancel_left_pos)
  then have "- (pi / 2) < radians d" "radians d < pi / 2"
    by (simp_all add: radians_def field_simps)
  then show ?thesis by (rule cos_gt_zero_pi)
qed

lemma grid_cover_1d:
  fixes a b :: real and n :: nat
  assumes n: "0 < n" and ab: "a < b"
  shows "(\<Union>i\<in>{..<n}. {a + real i * ((b - a) / real n) .. a + (real i + 1) * ((b - a) / real n)}) = {a..b}"
    (is "?L = ?R")
proof -
  define s where "s = (b - a) / real n"
  have s: "0 < s" using n ab by (simp add: s_def)
  have ns: "real n * s = b - a" using n by (simp add: s_def)
  show ?thesis unfolding s_def [symmetric]
  proof (intro set_eqI iffI)
    fix x assume "x \<in> (\<Union>i\<in>{..<n}. {a + real i * s .. a + (real i + 1) * s})"
    then obtain i where i: "i < n" and x: "a + real i * s \<le> x" "x \<le> a + (real i + 1) * s"
      by auto
    have "0 \<le> real i * s" using s by simp
    moreover have "(real i + 1) * s \<le> real n * s"
      using i s by (intro mult_right_mono) auto
    ultimately show "x \<in> {a..b}" using x ns by simp
  next
    fix x assume "x \<in> {a..b}"
    then have x: "a \<le> x" "x \<le> b" by auto
    show "x \<in> (\<Union>i\<in>{..<n}. {a + real i * s .. a + (real i + 1) * s})"
    proof (cases "x = b")
      case True
      have "real (n - 1) + 1 = real n" using n by (simp add: of_nat_diff)
      then have "a + (real (n - 1) + 1) * s = b" using ns by simp
      moreover have "a + real (n - 1) * s \<le> b"
      proof -
        have "real (n - 1) * s \<le> real n * s" using s by (intro mult_right_mono) auto
        then show ?thesis using ns by simp
      qed
      moreover have "n - 1 < n" using n by simp
      ultimately have "n - 1 \<in> {..<n}" "x \<in> {a + real (n - 1) * s .. a + (real (n - 1) + 1) * s}"
        using True by simp_all
      then show ?thesis by (rule UN_I)
    next
      case False
      define q where "q = (x - a) / s"
      define i where "i = nat \<lfloor>q\<rfloor>"
      have q0: "0 \<le> q" using x s by (simp add: q_def)
      have qn: "q < real n"
      proof -
        have "x - a < real n * s" using False x ns by simp
        then show ?thesis using s by (simp add: q_def pos_divide_less_eq)
      qed
      have fl: "0 \<le> \<lfloor>q\<rfloor>" using q0 by simp
      have iq: "real i \<le> q" using fl by (simp add: i_def)
      have qi: "q < real i + 1" using fl by (simp add: i_def)
      have "real i < real n" using iq qn by linarith
      then have "i < n" by simp
      moreover have "a + real i * s \<le> x"
      proof -
        have "real i * s \<le> q * s" using iq s by (intro mult_right_mono) auto
        also have "q * s = x - a" using s by (simp add: q_def)
        finally show ?thesis by simp
      qed
      moreover have "x \<le> a + (real i + 1) * s"
      proof -
        have "q * s \<le> (real i + 1) * s" using qi s by (intro mult_right_mono) auto
        moreover have "q * s = x - a" using s by (simp add: q_def)
        ultimately show ?thesis by simp
      qed
      ultimately have "i \<in> {..<n}" "x \<in> {a + real i * s .. a + (real i + 1) * s}"
        by simp_all
      then show ?thesis by (rule UN_I)
    qed
  qed
qed

lemma grid_disjoint_1d:
  fixes a s :: real and i j :: nat
  assumes s: "0 < s" and ij: "i \<noteq> j"
  shows "{a + real i * s <..< a + (real i + 1) * s} \<inter> {a + real j * s <..< a + (real j + 1) * s} = {}"
proof -
  have less: "{a + real k * s <..< a + (real k + 1) * s} \<inter> {a + real l * s <..< a + (real l + 1) * s} = {}"
    if "k < l" for k l :: nat
  proof -
    have "real k + 1 \<le> real l" using that by simp
    then have "(real k + 1) * s \<le> real l * s" using s by (intro mult_right_mono) auto
    then show ?thesis by auto
  qed
  from ij consider "i < j" | "j < i" by linarith
  then show ?thesis
  proof cases
    case 1 then show ?thesis by (rule less)
  next
    case 2 then show ?thesis using less [of j i] by (simp add: Int_commute)
  qed
qed

lemma concat_filter_product:
  "concat (map (\<lambda>i. filter P (map (f i) ys)) xs) =
   filter P (map (\<lambda>(i, j). f i j) (List.product xs ys))"
  by (induction xs) (simp_all add: comp_def)

lemma sub_rectangle_fields:
  assumes "0 \<le> sx" "0 \<le> sy"
  shows "minx (sub_rectangle b sx sy i j) = minx b + real i * sx"
    and "maxx (sub_rectangle b sx sy i j) = minx b + (real i + 1) * sx"
    and "miny (sub_rectangle b sx sy i j) = miny b + real j * sy"
    and "maxy (sub_rectangle b sx sy i j) = miny b + (real j + 1) * sy"
proof -
  have "real i * sx \<le> (real i + 1) * sx" "real j * sy \<le> (real j + 1) * sy"
    using assms by (simp_all add: mult_right_mono)
  then show "minx (sub_rectangle b sx sy i j) = minx b + real i * sx"
    and "maxx (sub_rectangle b sx sy i j) = minx b + (real i + 1) * sx"
    and "miny (sub_rectangle b sx sy i j) = miny b + real j * sy"
    and "maxy (sub_rectangle b sx sy i j) = miny b + (real j + 1) * sy"
    by (simp_all add: sub_rectangle_def box_def)
qed

lemma width_km_pos:
  assumes "minx b < maxx b" "miny b < maxy b" "- 90 \<le> miny b" "maxy b \<le> 90"
  shows "0 < width_km b"
proof -
  have "0 < cos (radians ((miny b + maxy b) / 2))"
    using assms by (intro cos_radians_pos) auto
  then show ?thesis using assms by (simp add: width_km_def)
qed

lemma height_km_pos: "miny b < maxy b \<Longrightarrow> 0 < height_km b"
  by (simp add: height_km_def)

lemma adaptive_max_size_km_pos: "0 < m \<Longrightarrow> 0 < adaptive_max_size_km w h m"
  by (auto simp: adaptive_max_size_km_def)

lemma ceiling_div_pos:
  fixes w m :: real
  assumes "0 < w" "0 < m"
  shows "0 < \<lceil>w / m\<rceil>"
  using assms by (simp add: ceiling_less_iff)

lemma split_boundary_box_single:
  "width_km b \<le> m \<and> height_km b \<le> m \<Longrightarrow> split_boundary_box P b m = Inr [b]"
  by (simp add: split_boundary_box_def)

lemma split_boundary_box_grid:
  assumes nofit: "\<not> (width_km b \<le> m \<and> height_km b \<le> m)"
    and m: "adaptive_max_size_km (width_km b) (height_km b) m \<noteq> 0"
    and nx: "fst (grid_counts b m) \<noteq> 0" and ny: "snd (grid_counts b m) \<noteq> 0"
  shows "split_boundary_box P b m = Inr (filter P (grid_rectangles b m))"
proof -
  obtain num_x num_y where g: "grid_counts b m = (num_x, num_y)"
    by (cases "grid_counts b m")
  with nx ny have "num_x \<noteq> 0" "num_y \<noteq> 0" by simp_all
  then show ?thesis
    using nofit m g
    by (auto simp: split_boundary_box_def grid_rectangles_def concat_filter_product Let_def)
qed


lemma rect_points_sub_rectangle:
  assumes "0 \<le> sx" "0 \<le> sy"
  shows "rect_points (sub_rectangle b sx sy i j) =
         {minx b + real i * sx .. minx b + (real i + 1) * sx} \<times>
         {miny b + real j * sy .. miny b + (real j + 1) * sy}"
  using assms by (simp add: rect_points_def sub_rectangle_fields)

lemma rect_interior_sub_rectangle:
  assumes "0 \<le> sx" "0 \<le> sy"
  shows "rect_interior (sub_rectangle b sx sy i j) =
         {minx b + real i * sx <..< minx b + (real i + 1) * sx} \<times>
         {miny b + real j * sy <..< miny b + (real j + 1) * sy}"
  using assms by (simp add: rect_interior_def sub_rectangle_fields)

lemma sub_rectangle_inj:
  assumes sx: "0 < sx" and sy: "0 < sy"
    and eq: "sub_rectangle b sx sy i j = sub_rectangle b sx sy k l"
  shows "i = k \<and> j = l"
proof -
  have "minx (sub_rectangle b sx sy i j) = minx (sub_rectangle b sx sy k l)"
    and "miny (sub_rectangle b sx sy i j) = miny (sub_rectangle b sx sy k l)"
    using eq by simp_all
  then have "real i * sx = real k * sx" "real j * sy = real l * sy"
    using sx sy by (simp_all add: sub_rectangle_fields)
  then show ?thesis using sx sy by simp
qed

lemma UN_Times_UN:
  "(\<Union>i\<in>I. \<Union>j\<in>J. A i \<times> B j) = (\<Union>i\<in>I. A i) \<times> (\<Union>j\<in>J. B j)"
  by blast

lemma UN_image_Times:
  "(\<Union>t\<in>(\<lambda>(i, j). f i j) ` (I \<times> J). g t) = (\<Union>i\<in>I. \<Union>j\<in>J. g (f i j))"
  by auto

lemma Times_disjoint_left: "X \<inter> X' = {} \<Longrightarrow> (X \<times> Y) \<inter> (X' \<times> Y') = {}"
  by blast

lemma Times_disjoint_right: "Y \<inter> Y' = {} \<Longrightarrow> (X \<times> Y) \<inter> (X' \<times> Y') = {}"
  by blast

lemma grid_list_properties:
  fixes b :: rect and nx ny :: nat
  assumes nx: "0 < nx" and ny: "0 < ny"
    and x: "minx b < maxx b" and y: "miny b < maxy b"
  defines "sx \<equiv> (maxx b - minx b) / real nx"
    and "sy \<equiv> (maxy b - miny b) / real ny"
  defines "G \<equiv> map (\<lambda>(i, j). sub_rectangle b sx sy i j) (List.product [0..<nx] [0..<ny])"
  shows "length G = nx * ny"
    and "distinct G"
    and "(\<Union>t\<in>set G. rect_points t) = rect_points b"
    and "\<forall>t\<in>set G. \<forall>u\<in>set G. t \<noteq> u \<longrightarrow> rect_interior t \<inter> rect_interior u = {}"
    and "\<forall>t\<in>set G. maxx t - minx t = sx \<and> maxy t - miny t = sy"
proof -
  have sx: "0 < sx" and sy: "0 < sy"
    using nx ny x y by (simp_all add: sx_def sy_def)
  have setG: "set G = (\<lambda>(i, j). sub_rectangle b sx sy i j) ` ({..<nx} \<times> {..<ny})"
    by (simp add: G_def atLeast0LessThan)
  show "length G = nx * ny"
    by (simp add: G_def)
  have "inj_on (\<lambda>(i, j). sub_rectangle b sx sy i j) (set (List.product [0..<nx] [0..<ny]))"
    using sub_rectangle_inj [OF sx sy] by (auto simp: inj_on_def)
  then show "distinct G"
    by (simp add: G_def distinct_map distinct_product)
  have covx: "(\<Union>i\<in>{..<nx}. {minx b + real i * sx .. minx b + (real i + 1) * sx}) = {minx b..maxx b}"
    unfolding sx_def by (rule grid_cover_1d [OF nx x])
  have covy: "(\<Union>j\<in>{..<ny}. {miny b + real j * sy .. miny b + (real j + 1) * sy}) = {miny b..maxy b}"
    unfolding sy_def by (rule grid_cover_1d [OF ny y])
  have "(\<Union>t\<in>set G. rect_points t) =
        (\<Union>i\<in>{..<nx}. \<Union>j\<in>{..<ny}. rect_points (sub_rectangle b sx sy i j))"
    unfolding setG by (rule UN_image_Times)
  also have "\<dots> =
        (\<Union>i\<in>{..<nx}. \<Union>j\<in>{..<ny}.
           {minx b + real i * sx .. minx b + (real i + 1) * sx} \<times>
           {miny b + real j * sy .. miny b + (real j + 1) * sy})"
    using sx sy by (simp add: rect_points_sub_rectangle)
  also have "\<dots> = (\<Union>i\<in>{..<nx}. {minx b + real i * sx .. minx b + (real i + 1) * sx}) \<times>
                  (\<Union>j\<in>{..<ny}. {miny b + real j * sy .. miny b + (real j + 1) * sy})"
    by (rule UN_Times_UN)
  also have "\<dots> = rect_points b"
    by (simp only: covx covy rect_points_def)
  finally show "(\<Union>t\<in>set G. rect_points t) = rect_points b" .
  show "\<forall>t\<in>set G. \<forall>u\<in>set G. t \<noteq> u \<longrightarrow> rect_interior t \<inter> rect_interior u = {}"
  proof (intro ballI impI)
    fix t u assume t: "t \<in> set G" and u: "u \<in> set G" and ne: "t \<noteq> u"
    from t obtain i j where tij: "t = sub_rectangle b sx sy i j" by (auto simp: setG)
    from u obtain k l where ukl: "u = sub_rectangle b sx sy k l" by (auto simp: setG)
    from ne tij ukl have "i \<noteq> k \<or> j \<noteq> l" by auto
    then show "rect_interior t \<inter> rect_interior u = {}"
    proof
      assume "i \<noteq> k"
      from grid_disjoint_1d [OF sx this, of "minx b"] show ?thesis
        unfolding tij ukl rect_interior_sub_rectangle [OF less_imp_le [OF sx] less_imp_le [OF sy]]
        by (rule Times_disjoint_left)
    next
      assume "j \<noteq> l"
      from grid_disjoint_1d [OF sy this, of "miny b"] show ?thesis
        unfolding tij ukl rect_interior_sub_rectangle [OF less_imp_le [OF sx] less_imp_le [OF sy]]
        by (rule Times_disjoint_right)
    qed
  qed
  show "\<forall>t\<in>set G. maxx t - minx t = sx \<and> maxy t - miny t = sy"
  proof
    fix t assume "t \<in> set G"
    then obtain i j where tij: "t = sub_rectangle b sx sy i j" by (auto simp: setG)
    have "minx b + (real i + 1) * sx - (minx b + real i * sx) = sx"
      and "miny b + (real j + 1) * sy - (miny b + real j * sy) = sy"
      by (simp_all add: algebra_simps)
    then show "maxx t - minx t = sx \<and> maxy t - miny t = sy"
      unfolding tij sub_rectangle_fields [OF less_imp_le [OF sx] less_imp_le [OF sy]] by simp
  qed
qed

lemma width_km_unit_box: "width_km (box 0 (- (1/2)) 1 (1/2)) = 111"
  by (simp add: width_km_def box_def radians_def)

lemma height_km_unit_box: "height_km (box 0 (- (1/2)) 1 (1/2)) = 111"
  by (simp add: height_km_def box_def)

lemma grid_counts_unit_box: "grid_counts (box 0 (- (1/2)) 1 (1/2)) 30 = (4, 4)"
  by (simp add: grid_counts_def width_km_unit_box height_km_unit_box adaptive_max_size_km_def)

lemma width_km_small_box: "width_km (box 0 (- (1/20)) (1/10) (1/20)) = 111 / 10"
  by (simp add: width_km_def box_def radians_def)

lemma height_km_small_box: "height_km (box 0 (- (1/20)) (1/10) (1/20)) = 111 / 10"
  by (simp add: height_km_def box_def)

text \<open>
  The partition property, for every bounding box of positive width and height, with latitudes
  between -90 and 90, and every positive \<open>max_size_km\<close>: if width and height in kilometres
  are both at most \<open>max_size_km\<close>, \<open>split_boundary_box\<close> returns exactly the box; otherwise
  it returns the rectangles of the grid that pass the intersection test, and the grid before
  that test has \<open>num_x * num_y\<close> distinct rectangles of equal width and of equal height,
  whose union is exactly the box and whose interiors are pairwise disjoint.
\<close>

theorem split_boundary_box_partition:
  assumes x: "minx b < maxx b" and y: "miny b < maxy b"
    and lat: "- 90 \<le> miny b" "maxy b \<le> 90" and m: "0 < m"
  shows "(width_km b \<le> m \<and> height_km b \<le> m \<longrightarrow> split_boundary_box P b m = Inr [b])
       \<and> (\<not> (width_km b \<le> m \<and> height_km b \<le> m) \<longrightarrow>
            split_boundary_box P b m = Inr (filter P (grid_rectangles b m))
          \<and> split_boundary_box (\<lambda>r. True) b m = Inr (grid_rectangles b m)
          \<and> 0 < fst (grid_counts b m) \<and> 0 < snd (grid_counts b m)
          \<and> length (grid_rectangles b m) = nat (fst (grid_counts b m)) * nat (snd (grid_counts b m))
          \<and> distinct (grid_rectangles b m)
          \<and> (\<forall>t\<in>set (grid_rectangles b m).
                maxx t - minx t = (maxx b - minx b) / real_of_int (fst (grid_counts b m))
              \<and> maxy t - miny t = (maxy b - miny b) / real_of_int (snd (grid_counts b m)))
          \<and> (\<Union>t\<in>set (grid_rectangles b m). rect_points t) = rect_points b
          \<and> (\<forall>t\<in>set (grid_rectangles b m). \<forall>u\<in>set (grid_rectangles b m).
                t \<noteq> u \<longrightarrow> rect_interior t \<inter> rect_interior u = {}))"
proof (intro conjI impI)
  assume "width_km b \<le> m \<and> height_km b \<le> m"
  then show "split_boundary_box P b m = Inr [b]" by (rule split_boundary_box_single)
next
  assume nofit: "\<not> (width_km b \<le> m \<and> height_km b \<le> m)"
  define a where "a = adaptive_max_size_km (width_km b) (height_km b) m"
  define num_x where "num_x = \<lceil>width_km b / a\<rceil>"
  define num_y where "num_y = \<lceil>height_km b / a\<rceil>"
  have g: "grid_counts b m = (num_x, num_y)"
    by (simp add: grid_counts_def a_def num_x_def num_y_def Let_def)
  have a: "0 < a" unfolding a_def using m by (rule adaptive_max_size_km_pos)
  have nx: "0 < num_x" unfolding num_x_def
    using width_km_pos [OF x y lat] a by (rule ceiling_div_pos)
  have ny: "0 < num_y" unfolding num_y_def
    using height_km_pos [OF y] a by (rule ceiling_div_pos)
  have grid: "split_boundary_box Q b m = Inr (filter Q (grid_rectangles b m))" for Q
    using nofit a nx ny by (intro split_boundary_box_grid) (simp_all add: g a_def)
  show "split_boundary_box P b m = Inr (filter P (grid_rectangles b m))" by (rule grid)
  show "split_boundary_box (\<lambda>r. True) b m = Inr (grid_rectangles b m)"
    using grid [of "\<lambda>r. True"] by simp
  show "0 < fst (grid_counts b m)" "0 < snd (grid_counts b m)"
    using nx ny by (simp_all add: g)
  have rx: "real_of_int num_x = real (nat num_x)" and ry: "real_of_int num_y = real (nat num_y)"
    using nx ny by simp_all
  have G: "grid_rectangles b m =
           map (\<lambda>(i, j). sub_rectangle b ((maxx b - minx b) / real (nat num_x))
                  ((maxy b - miny b) / real (nat num_y)) i j)
             (List.product [0..<nat num_x] [0..<nat num_y])"
    by (simp only: grid_rectangles_def g Let_def prod.case rx ry)
  have px: "0 < nat num_x" and py: "0 < nat num_y" using nx ny by simp_all
  note props = grid_list_properties [OF px py x y, folded G]
  show "length (grid_rectangles b m) = nat (fst (grid_counts b m)) * nat (snd (grid_counts b m))"
    using props(1) by (simp add: g)
  show "distinct (grid_rectangles b m)" by (rule props(2))
  show "(\<Union>t\<in>set (grid_rectangles b m). rect_points t) = rect_points b" by (rule props(3))
  show "\<forall>t\<in>set (grid_rectangles b m). \<forall>u\<in>set (grid_rectangles b m).
          t \<noteq> u \<longrightarrow> rect_interior t \<inter> rect_interior u = {}" by (rule props(4))
  show "\<forall>t\<in>set (grid_rectangles b m).
          maxx t - minx t = (maxx b - minx b) / real_of_int (fst (grid_counts b m))
        \<and> maxy t - miny t = (maxy b - miny b) / real_of_int (snd (grid_counts b m))"
    using props(5) by (simp add: g rx ry)
qed

theorem split_boundary_box_partition_witness:
  "\<not> (width_km (box 0 (- (1/2)) 1 (1/2)) \<le> 30 \<and> height_km (box 0 (- (1/2)) 1 (1/2)) \<le> 30)
   \<and> split_boundary_box (\<lambda>r. True) (box 0 (- (1/2)) 1 (1/2)) 30
       = Inr (grid_rectangles (box 0 (- (1/2)) 1 (1/2)) 30)
   \<and> length (grid_rectangles (box 0 (- (1/2)) 1 (1/2)) 30) = 16
   \<and> distinct (grid_rectangles (box 0 (- (1/2)) 1 (1/2)) 30)
   \<and> (\<Union>t\<in>set (grid_rectangles (box 0 (- (1/2)) 1 (1/2)) 30). rect_points t)
       = rect_points (box 0 (- (1/2)) 1 (1/2))
   \<and> width_km (box 0 (- (1/20)) (1/10) (1/20)) \<le> 30
   \<and> height_km (box 0 (- (1/20)) (1/10) (1/20)) \<le> 30
   \<and> split_boundary_box (\<lambda>r. True) (box 0 (- (1/20)) (1/10) (1/20)) 30
       = Inr [box 0 (- (1/20)) (1/10) (1/20)]"
proof -
  have h: "minx (box 0 (- (1/2)) 1 (1/2)) < maxx (box 0 (- (1/2)) 1 (1/2))"
    "miny (box 0 (- (1/2)) 1 (1/2)) < maxy (box 0 (- (1/2)) 1 (1/2))"
    "- 90 \<le> miny (box 0 (- (1/2)) 1 (1/2))" "maxy (box 0 (- (1/2)) 1 (1/2)) \<le> 90"
    "(0::real) < 30"
    by (simp_all add: box_def)
  have k: "minx (box 0 (- (1/20)) (1/10) (1/20)) < maxx (box 0 (- (1/20)) (1/10) (1/20))"
    "miny (box 0 (- (1/20)) (1/10) (1/20)) < maxy (box 0 (- (1/20)) (1/10) (1/20))"
    "- 90 \<le> miny (box 0 (- (1/20)) (1/10) (1/20))" "maxy (box 0 (- (1/20)) (1/10) (1/20)) \<le> 90"
    by (simp_all add: box_def)
  show ?thesis
    using split_boundary_box_partition [OF h, of "\<lambda>r. True"]
      split_boundary_box_partition [OF k h(5), of "\<lambda>r. True"]
    by (simp add: width_km_unit_box height_km_unit_box grid_counts_unit_box
        width_km_small_box height_km_small_box)
qed

text \<open>
  Claim C5, at its failing input. A box of zero width and a height of 111 km does not fit
  a single tile; \<open>num_x\<close> is \<open>0\<close> there, \<open>step_x = (maxx - minx) / num_x\<close> raises
  \<^verbatim>\<open>ZeroDivisionError\<close>, and no tile is returned whose union could be the box.
\<close>

theorem split_boundary_box_zero_width_raises:
  "\<not> (width_km (box 0 0 0 1) \<le> 30 \<and> height_km (box 0 0 0 1) \<le> 30)
   \<and> split_boundary_box (\<lambda>r. True) (box 0 0 0 1) 30 = Inl ZeroDivisionError"
  by (simp add: split_boundary_box_def grid_counts_def width_km_def height_km_def box_def
      adaptive_max_size_km_def)


text \<open>
  Claim C6, as amended. On the grid path every tile that \<open>split_boundary_box\<close> returns
  passes the intersection test with the polygon; on the single-tile path the whole box is
  returned without that test.
\<close>

theorem split_boundary_box_grid_filtered:
  "(width_km b \<le> m \<and> height_km b \<le> m \<longrightarrow> split_boundary_box P b m = Inr [b])
   \<and> (\<not> (width_km b \<le> m \<and> height_km b \<le> m) \<longrightarrow>
        (\<forall>ts. split_boundary_box P b m = Inr ts \<longrightarrow> (\<forall>t\<in>set ts. P t)))"
proof (intro conjI impI allI)
  assume "width_km b \<le> m \<and> height_km b \<le> m"
  then show "split_boundary_box P b m = Inr [b]" by (rule split_boundary_box_single)
next
  fix ts
  assume nofit: "\<not> (width_km b \<le> m \<and> height_km b \<le> m)"
    and ts: "split_boundary_box P b m = Inr ts"
  obtain num_x num_y where g: "grid_counts b m = (num_x, num_y)"
    by (cases "grid_counts b m")
  from ts nofit g show "\<forall>t\<in>set ts. P t"
    by (auto simp: split_boundary_box_def Let_def split: if_splits)
qed

theorem split_boundary_box_grid_filtered_witness:
  "\<not> (width_km (box 0 (- (1/2)) 1 (1/2)) \<le> 30 \<and> height_km (box 0 (- (1/2)) 1 (1/2)) \<le> 30)
   \<and> split_boundary_box (\<lambda>r. maxx r \<le> 1/4 \<and> maxy r \<le> - (1/4)) (box 0 (- (1/2)) 1 (1/2)) 30
       = Inr [box 0 (- (1/2)) (1/4) (- (1/4))]
   \<and> maxx (box 0 (- (1/2)) (1/4) (- (1/4))) \<le> 1/4
   \<and> maxy (box 0 (- (1/2)) (1/4) (- (1/4))) \<le> - (1/4)"
proof -
  have upt4: "[0..<4] = [0, 1, 2, 3]"
    by (simp add: upt_rec)
  have ev: "split_boundary_box (\<lambda>r. maxx r \<le> 1/4 \<and> maxy r \<le> - (1/4)) (box 0 (- (1/2)) 1 (1/2)) 30
       = Inr [box 0 (- (1/2)) (1/4) (- (1/4))]"
    by (simp add: split_boundary_box_def width_km_unit_box height_km_unit_box
        grid_counts_unit_box adaptive_max_size_km_def upt4 sub_rectangle_def)
       (simp add: box_def Let_def)
  have nofit: "\<not> (width_km (box 0 (- (1/2)) 1 (1/2)) \<le> 30 \<and> height_km (box 0 (- (1/2)) 1 (1/2)) \<le> 30)"
    by (simp add: width_km_unit_box)
  have "\<forall>t\<in>set [box 0 (- (1/2)) (1/4) (- (1/4))]. maxx t \<le> 1/4 \<and> maxy t \<le> - (1/4)"
    using split_boundary_box_grid_filtered
      [of "box 0 (- (1/2)) 1 (1/2)" 30 "\<lambda>r. maxx r \<le> 1/4 \<and> maxy r \<le> - (1/4)"] ev nofit
    by blast
  then have "maxx (box 0 (- (1/2)) (1/4) (- (1/4))) \<le> 1/4 \<and> maxy (box 0 (- (1/2)) (1/4) (- (1/4))) \<le> - (1/4)"
    by simp
  then show ?thesis
    using nofit ev by blast
qed

text \<open>
  With an empty polygon no rectangle intersects it; a box of 11.1 km by 11.1 km is
  returned all the same.
\<close>

theorem split_boundary_box_single_unfiltered_counterexample:
  "split_boundary_box (\<lambda>r. False) (box 0 (- (1/20)) (1/10) (1/20)) 30
     = Inr [box 0 (- (1/20)) (1/10) (1/20)]
   \<and> \<not> list_all (\<lambda>r. False) [box 0 (- (1/20)) (1/10) (1/20)]"
  by (simp add: split_boundary_box_def width_km_small_box height_km_small_box)

text \<open>
  Claim C7, as amended. When the area proxy exceeds 1000 the maximum tile extent is clamped
  to the interval from 30 to 60 (otherwise it is left as given); with the default
  \<open>max_size_km = 30\<close> the extent stays exactly 30 for every box, so \<open>num_x\<close> and
  \<open>num_y\<close> are those of the fixed 30 km grid.
\<close>

theorem adaptive_max_size_km_clamp:
  "adaptive_max_size_km w h 30 = 30
   \<and> grid_counts b 30 = (\<lceil>width_km b / 30\<rceil>, \<lceil>height_km b / 30\<rceil>)
   \<and> (w * h > 1000 \<longrightarrow>
        adaptive_max_size_km w h m = min 60 (max 30 m)
        \<and> 30 \<le> adaptive_max_size_km w h m \<and> adaptive_max_size_km w h m \<le> 60)
   \<and> (\<not> w * h > 1000 \<longrightarrow> adaptive_max_size_km w h m = m)"
  by (simp add: adaptive_max_size_km_def grid_counts_def)

theorem adaptive_max_size_km_clamp_witness:
  "(111::real) * 111 > 1000
   \<and> adaptive_max_size_km 111 111 30 = 30
   \<and> adaptive_max_size_km 111 111 45 = 45
   \<and> adaptive_max_size_km 111 111 100 = 60
   \<and> adaptive_max_size_km 111 111 10 = 30
   \<and> grid_counts (box 0 (- (1/2)) 1 (1/2)) 30 = (4, 4)"
  using adaptive_max_size_km_clamp [of 111 111 "box 0 (- (1/2)) 1 (1/2)" 45]
    adaptive_max_size_km_clamp [of 111 111 "box 0 (- (1/2)) 1 (1/2)" 100]
    adaptive_max_size_km_clamp [of 111 111 "box 0 (- (1/2)) 1 (1/2)" 10]
  by (simp add: width_km_unit_box height_km_unit_box)

text \<open>
  The box of one degree by one degree at the equator (111 km by 111 km, area proxy above
  1000) keeps the extent 30 and is cut into 4 by 4 tiles, as by the fixed 30 km grid.
\<close>

theorem adaptive_max_size_km_not_widened_counterexample:
  "\<not> (width_km (box 0 (- (1/2)) 1 (1/2)) \<le> 30 \<and> height_km (box 0 (- (1/2)) 1 (1/2)) \<le> 30)
   \<and> width_km (box 0 (- (1/2)) 1 (1/2)) * height_km (box 0 (- (1/2)) 1 (1/2)) > 1000
   \<and> \<not> 30 < adaptive_max_size_km (width_km (box 0 (- (1/2)) 1 (1/2)))
              (height_km (box 0 (- (1/2)) 1 (1/2))) 30
   \<and> grid_counts (box 0 (- (1/2)) 1 (1/2)) 30 = (\<lceil>111 / 30 :: real\<rceil>, \<lceil>111 / 30 :: real\<rceil>)
   \<and> length (grid_rectangles (box 0 (- (1/2)) 1 (1/2)) 30) = 16"
  by (simp add: width_km_unit_box height_km_unit_box grid_counts_unit_box
      adaptive_max_size_km_def grid_rectangles_def)

subsection \<open>Tile fetching\<close>

lemma retry_loop_all_fail:
  "(\<forall>i<n. \<not> succeeds (outcome (r + i))) \<Longrightarrow>
   retry_loop outcome r n s = (None, \<lparr>attempts = attempts s + n, slept = slept s + 2 * n\<rparr>)"
proof (induction n arbitrary: r s)
  case 0
  then show ?case by simp
next
  case (Suc n)
  from Suc.prems have first: "\<not> succeeds (outcome r)"
    by (metis add.right_neutral zero_less_Suc)
  from Suc.prems have rest: "\<forall>i<n. \<not> succeeds (outcome (Suc r + i))"
    by (metis Suc_less_eq add_Suc_shift)
  have step: "retry_loop outcome r (Suc n) s = retry_loop outcome (Suc r) n (backoff s)"
    using first by (cases "outcome r") (auto split: option.splits)
  show ?case
    unfolding step Suc.IH [OF rest] by (simp add: backoff_def)
qed

lemma retry_loop_first_success:
  "k < n \<Longrightarrow> outcome (r + k) = Response 200 (Some img) \<Longrightarrow>
   (\<forall>i<k. \<not> succeeds (outcome (r + i))) \<Longrightarrow>
   retry_loop outcome r n s = (Some img, \<lparr>attempts = attempts s + k + 1, slept = slept s + 2 * k\<rparr>)"
proof (induction n arbitrary: r s k)
  case 0
  then show ?case by simp
next
  case (Suc n)
  show ?case
  proof (cases k)
    case 0
    with Suc.prems show ?thesis by simp
  next
    case (Suc k')
    from Suc.prems Suc have first: "\<not> succeeds (outcome r)"
      by (metis add.right_neutral zero_less_Suc)
    from Suc.prems Suc have rest: "\<forall>i<k'. \<not> succeeds (outcome (Suc r + i))"
      by (metis Suc_less_eq add_Suc_shift)
    have k': "k' < n" and hit: "outcome (Suc r + k') = Response 200 (Some img)"
      using Suc.prems Suc by simp_all
    have step: "retry_loop outcome r (Suc n) s = retry_loop outcome (Suc r) n (backoff s)"
      using first by (cases "outcome r") (auto split: option.splits)
    show ?thesis
      unfolding step Suc.IH [OF k' hit rest] using Suc by (simp add: backoff_def)
  qed
qed

text \<open>
  Claim C8. For every sequence of outcomes: when each of the first \<open>max_retries\<close> passes
  fails, \<open>export_sub_polygon_as_png\<close> returns \<open>None\<close> after exactly \<open>max_retries\<close>
  passes, having slept two seconds after each; when pass \<open>k\<close> is the first that succeeds,
  it returns the decoded image after \<open>k + 1\<close> passes and \<open>2 * k\<close> seconds of sleep, and
  makes no further pass. The default \<open>max_retries\<close> is 3.
\<close>

theorem export_sub_polygon_as_png_retries:
  "((\<forall>i<nat max_retries. \<not> succeeds (outcome i)) \<longrightarrow>
      export_sub_polygon_as_png outcome max_retries
        = (None, \<lparr>attempts = nat max_retries, slept = 2 * nat max_retries\<rparr>))
   \<and> (k < nat max_retries \<and> outcome k = Response 200 (Some img)
        \<and> (\<forall>i<k. \<not> succeeds (outcome i)) \<longrightarrow>
      export_sub_polygon_as_png outcome max_retries
        = (Some img, \<lparr>attempts = k + 1, slept = 2 * k\<rparr>))
   \<and> nat default_max_retries = 3"
proof (intro conjI impI)
  assume "\<forall>i<nat max_retries. \<not> succeeds (outcome i)"
  then show "export_sub_polygon_as_png outcome max_retries
        = (None, \<lparr>attempts = nat max_retries, slept = 2 * nat max_retries\<rparr>)"
    unfolding export_sub_polygon_as_png_def
    using retry_loop_all_fail [of "nat max_retries" outcome 0] by simp
next
  assume "k < nat max_retries \<and> outcome k = Response 200 (Some img)
        \<and> (\<forall>i<k. \<not> succeeds (outcome i))"
  then show "export_sub_polygon_as_png outcome max_retries
        = (Some img, \<lparr>attempts = k + 1, slept = 2 * k\<rparr>)"
    unfolding export_sub_polygon_as_png_def
    using retry_loop_first_success [of k "nat max_retries" outcome 0 img] by simp
next
  show "nat default_max_retries = 3" by (simp add: default_max_retries_def)
qed

theorem export_sub_polygon_as_png_retries_witness:
  "export_sub_polygon_as_png (\<lambda>i. Response 503 (None :: nat option)) default_max_retries
     = (None, \<lparr>attempts = 3, slept = 6\<rparr>)
   \<and> export_sub_polygon_as_png
       (\<lambda>i. if i = 0 then Raised else if i = 1 then Response 503 None else Response 200 (Some (7::nat)))
       default_max_retries
     = (Some 7, \<lparr>attempts = 3, slept = 4\<rparr>)
   \<and> export_sub_polygon_as_png
       (\<lambda>i. if i = 0 then Response 200 (Some (7::nat)) else Response 200 (Some 8)) default_max_retries
     = (Some 7, \<lparr>attempts = 1, slept = 0\<rparr>)"
  using export_sub_polygon_as_png_retries
      [where max_retries = default_max_retries and k = 0 and img = 0
         and outcome = "\<lambda>i. Response 503 (None :: nat option)"]
    export_sub_polygon_as_png_retries
      [where max_retries = default_max_retries and k = 2 and img = 7
         and outcome = "\<lambda>i. if i = 0 then Raised else if i = 1 then Response 503 None
                               else Response 200 (Some (7::nat))"]
    export_sub_polygon_as_png_retries
      [where max_retries = default_max_retries and k = 0 and img = 7
         and outcome = "\<lambda>i. if i = 0 then Response 200 (Some (7::nat)) else Response 200 (Some 8)"]
  by (simp add: default_max_retries_def less_Suc_eq numeral_2_eq_2)

subsection \<open>Protected-area masks\<close>

lemma get_protected_areas_miss:
  assumes "map_of (cache s) (w, d) = None"
  shows "get_protected_areas p s w d =
         (get_protected_areas_body p w d,
          \<lparr>cache = take maxsize (((w, d), get_protected_areas_body p w d) # cache s),
           remote_calls = remote_calls s + 1\<rparr>)"
  using assms by (simp add: get_protected_areas_def Let_def)

lemma get_protected_areas_hit:
  assumes "map_of (cache s) (w, d) = Some v"
  shows "get_protected_areas p s w d =
         (v, s\<lparr>cache := ((w, d), v) # filter (\<lambda>e. fst e \<noteq> (w, d)) (cache s)\<rparr>)"
  using assms by (simp add: get_protected_areas_def Let_def)

lemma get_protected_areas_cached:
  "map_of (cache (snd (get_protected_areas p s w d))) (w, d) = Some (fst (get_protected_areas p s w d))"
  by (cases "map_of (cache s) (w, d)")
     (simp_all add: get_protected_areas_miss get_protected_areas_hit maxsize_def)

text \<open>
  Claim C9, as amended. The memo table is keyed by the boundary text together with the whole
  acquisition date: a call whose (boundary, date) is not in the table runs the remote
  computation exactly once and stores its result; a call whose (boundary, date) is in the
  table returns the stored result and runs nothing; so a second call with the same boundary
  and the same date, right after the first, returns the first result with no further remote
  computation.
\<close>

theorem get_protected_areas_memo:
  "(map_of (cache s) (w, d) = None \<longrightarrow>
      fst (get_protected_areas p s w d) = get_protected_areas_body p w d
      \<and> remote_calls (snd (get_protected_areas p s w d)) = remote_calls s + 1)
   \<and> (map_of (cache s) (w, d) = Some v \<longrightarrow>
      fst (get_protected_areas p s w d) = v
      \<and> remote_calls (snd (get_protected_areas p s w d)) = remote_calls s)
   \<and> fst (get_protected_areas p (snd (get_protected_areas p s w d)) w d)
       = fst (get_protected_areas p s w d)
   \<and> remote_calls (snd (get_protected_areas p (snd (get_protected_areas p s w d)) w d))
       = remote_calls (snd (get_protected_areas p s w d))"
proof (intro conjI impI)
  assume "map_of (cache s) (w, d) = None"
  then show "fst (get_protected_areas p s w d) = get_protected_areas_body p w d"
    and "remote_calls (snd (get_protected_areas p s w d)) = remote_calls s + 1"
    by (simp_all add: get_protected_areas_miss)
next
  assume "map_of (cache s) (w, d) = Some v"
  then show "fst (get_protected_areas p s w d) = v"
    and "remote_calls (snd (get_protected_areas p s w d)) = remote_calls s"
    by (simp_all add: get_protected_areas_hit)
next
  show "fst (get_protected_areas p (snd (get_protected_areas p s w d)) w d)
       = fst (get_protected_areas p s w d)"
    by (simp add: get_protected_areas_hit [OF get_protected_areas_cached])
  show "remote_calls (snd (get_protected_areas p (snd (get_protected_areas p s w d)) w d))
       = remote_calls (snd (get_protected_areas p s w d))"
    by (simp add: get_protected_areas_hit [OF get_protected_areas_cached])
qed

theorem get_protected_areas_memo_witness:
  "map_of (cache \<lparr>cache = [], remote_calls = 0\<rparr>) (''POLYGON ((0 0, 1 0, 1 1, 0 0))'', Date 2024 5 1) = None
   \<and> fst (get_protected_areas \<lparr>collection_raises = \<lambda>y m. False, protected_mask = \<lambda>c w. (c, w)\<rparr>
        \<lparr>cache = [], remote_calls = 0\<rparr> ''POLYGON ((0 0, 1 0, 1 1, 0 0))'' (Date 2024 5 1))
       = (Monthly 2024 5, ''POLYGON ((0 0, 1 0, 1 1, 0 0))'')
   \<and> remote_calls (snd (get_protected_areas
        \<lparr>collection_raises = \<lambda>y m. False, protected_mask = \<lambda>c w. (c, w)\<rparr>
        \<lparr>cache = [], remote_calls = 0\<rparr> ''POLYGON ((0 0, 1 0, 1 1, 0 0))'' (Date 2024 5 1))) = 1
   \<and> remote_calls (snd (get_protected_areas
        \<lparr>collection_raises = \<lambda>y m. False, protected_mask = \<lambda>c w. (c, w)\<rparr>
        (snd (get_protected_areas
           \<lparr>collection_raises = \<lambda>y m. False, protected_mask = \<lambda>c w. (c, w)\<rparr>
           \<lparr>cache = [], remote_calls = 0\<rparr> ''POLYGON ((0 0, 1 0, 1 1, 0 0))'' (Date 2024 5 1)))
        ''POLYGON ((0 0, 1 0, 1 1, 0 0))'' (Date 2024 5 1))) = 1"
  using get_protected_areas_memo
    [where s = "\<lparr>cache = [], remote_calls = 0\<rparr>" and w = "''POLYGON ((0 0, 1 0, 1 1, 0 0))''"
       and d = "Date 2024 5 1"
       and p = "\<lparr>collection_raises = \<lambda>y m. False, protected_mask = \<lambda>c w. (c, w)\<rparr>"]
  by (simp add: get_protected_areas_body_def yyyymm_def Let_def)

text \<open>
  Two acquisition dates of the same calendar month, the first and the second of May 2024,
  for one boundary: the second call is a miss and runs the remote computation again.
\<close>

theorem get_protected_areas_same_month_counterexample:
  "yyyymm (Date 2024 5 1) = yyyymm (Date 2024 5 2)
   \<and> remote_calls (snd (get_protected_areas
        \<lparr>collection_raises = \<lambda>y m. False, protected_mask = \<lambda>c w. (c, w)\<rparr>
        (snd (get_protected_areas
           \<lparr>collection_raises = \<lambda>y m. False, protected_mask = \<lambda>c w. (c, w)\<rparr>
           \<lparr>cache = [], remote_calls = 0\<rparr> ''POLYGON ((0 0, 1 0, 1 1, 0 0))'' (Date 2024 5 1)))
        ''POLYGON ((0 0, 1 0, 1 1, 0 0))'' (Date 2024 5 2))) = 2"
  by (simp add: get_protected_areas_def get_protected_areas_body_def yyyymm_def maxsize_def Let_def)

subsection \<open>Canvas size\<close>

lemma width_m_example: "width_m example_box_120km = 120000"
  by (simp add: width_m_def example_box_120km_def box_def radians_def)

lemma height_m_example: "height_m example_box_120km = 120000"
  by (simp add: height_m_def example_box_120km_def box_def)

lemma initial_scale_example: "initial_scale example_box_120km = 20"
  by (simp add: initial_scale_def width_m_example height_m_example)

lemma canvas_size_example: "canvas_size example_box_120km = (5000, 5000)"
  by (simp add: canvas_size_def downscale_def initial_scale_example width_m_example
      height_m_example py_int_def max_dim_def)

lemma canvas_size_lambda_example: "canvas_size_lambda example_box_120km = (5000, 100000)"
  by (simp add: canvas_size_lambda_def initial_scale_example width_m_example
      height_m_example py_int_def max_dim_def)

lemma py_int_le:
  assumes "0 \<le> x" "x \<le> real_of_int n"
  shows "py_int x \<le> n"
  using assms by (simp add: py_int_def floor_le_iff)

lemma py_int_bounds:
  assumes "0 \<le> x"
  shows "real_of_int (py_int x) \<le> x" "x < real_of_int (py_int x) + 1"
  using assms by (simp_all add: py_int_def)

lemma downscale_fits:
  assumes w: "0 \<le> w_px" and h: "0 \<le> h_px" and big: "w_px > max_dim \<or> h_px > max_dim"
  defines "factor \<equiv> max (real_of_int w_px / real_of_int max_dim) (real_of_int h_px / real_of_int max_dim)"
  shows "downscale w_px h_px = (py_int (real_of_int w_px / factor), py_int (real_of_int h_px / factor))"
    and "1 < factor"
    and "fst (downscale w_px h_px) \<le> max_dim" and "snd (downscale w_px h_px) \<le> max_dim"
    and "0 \<le> fst (downscale w_px h_px)" and "0 \<le> snd (downscale w_px h_px)"
    and "real_of_int (fst (downscale w_px h_px)) \<le> real_of_int w_px / factor"
    and "real_of_int w_px / factor < real_of_int (fst (downscale w_px h_px)) + 1"
    and "real_of_int (snd (downscale w_px h_px)) \<le> real_of_int h_px / factor"
    and "real_of_int h_px / factor < real_of_int (snd (downscale w_px h_px)) + 1"
    and "fst (downscale w_px h_px) = max_dim \<or> snd (downscale w_px h_px) = max_dim"
proof -
  show eq: "downscale w_px h_px = (py_int (real_of_int w_px / factor), py_int (real_of_int h_px / factor))"
    using big by (simp add: downscale_def factor_def Let_def)
  show f1: "1 < factor"
    using big by (auto simp: factor_def max_dim_def less_max_iff_disj)
  have fw: "real_of_int w_px / real_of_int max_dim \<le> factor"
    and fh: "real_of_int h_px / real_of_int max_dim \<le> factor"
    by (simp_all add: factor_def)
  have f0: "0 < factor" using f1 by simp
  have wq: "0 \<le> real_of_int w_px / factor" and hq: "0 \<le> real_of_int h_px / factor"
    using w h f0 by simp_all
  have wle: "real_of_int w_px / factor \<le> real_of_int max_dim"
    using fw f0 by (simp add: max_dim_def field_simps)
  have hle: "real_of_int h_px / factor \<le> real_of_int max_dim"
    using fh f0 by (simp add: max_dim_def field_simps)
  show "fst (downscale w_px h_px) \<le> max_dim" "snd (downscale w_px h_px) \<le> max_dim"
    unfolding eq using py_int_le [OF wq wle] py_int_le [OF hq hle] by simp_all
  show "0 \<le> fst (downscale w_px h_px)" "0 \<le> snd (downscale w_px h_px)"
    unfolding eq using wq hq by (simp_all add: py_int_def)
  show "real_of_int (fst (downscale w_px h_px)) \<le> real_of_int w_px / factor"
    "real_of_int w_px / factor < real_of_int (fst (downscale w_px h_px)) + 1"
    unfolding eq using py_int_bounds [OF wq] by simp_all
  show "real_of_int (snd (downscale w_px h_px)) \<le> real_of_int h_px / factor"
    "real_of_int h_px / factor < real_of_int (snd (downscale w_px h_px)) + 1"
    unfolding eq using py_int_bounds [OF hq] by simp_all
  have "factor = real_of_int w_px / real_of_int max_dim \<or> factor = real_of_int h_px / real_of_int max_dim"
    by (auto simp: factor_def max_def)
  then have "real_of_int w_px / factor = real_of_int max_dim \<or> real_of_int h_px / factor = real_of_int max_dim"
    using f0 by (auto simp: max_dim_def field_simps)
  then show "fst (downscale w_px h_px) = max_dim \<or> snd (downscale w_px h_px) = max_dim"
    unfolding eq by (auto simp: py_int_def max_dim_def)
qed

subsection \<open>Canvas size in the second file\<close>

lemma canvas_size_bounded:
  assumes "0 \<le> width_m b" "0 \<le> height_m b"
  shows "fst (canvas_size b) \<le> max_dim \<and> snd (canvas_size b) \<le> max_dim"
proof -
  define w where "w = py_int (width_m b / initial_scale b)"
  define h where "h = py_int (height_m b / initial_scale b)"
  have s: "0 < initial_scale b" by (simp add: initial_scale_def)
  have "0 \<le> width_m b / initial_scale b" "0 \<le> height_m b / initial_scale b"
    using assms s by simp_all
  then have w: "0 \<le> w" and h: "0 \<le> h"
    by (simp_all add: w_def h_def py_int_def)
  have c: "canvas_size b = downscale w h"
    by (simp add: canvas_size_def w_def h_def Let_def)
  show ?thesis
  proof (cases "w > max_dim \<or> h > max_dim")
    case True
    from downscale_fits(3,4) [OF w h True] show ?thesis by (simp add: c)
  next
    case False
    then show ?thesis by (simp add: c downscale_def)
  qed
qed

text \<open>
  Claim C4, at its failing input. For the box of 120 km by 120 km on the equator the first
  pixel size is 20 and both dimensions are 6000, above 5000. The first file divides both by
  the factor 1.2 and gets 5000 by 5000. The second file divides the width in pixels by the
  factor but the height in metres: its canvas is 5000 by 100000, higher than the maximum
  and no longer square.
\<close>

theorem canvas_size_lambda_not_downscaled:
  "width_m example_box_120km = 120000 \<and> height_m example_box_120km = 120000
   \<and> initial_scale example_box_120km = 20
   \<and> canvas_size example_box_120km = (5000, 5000)
   \<and> canvas_size_lambda example_box_120km = (5000, 100000)
   \<and> max_dim < snd (canvas_size_lambda example_box_120km)"
  by (simp add: width_m_example height_m_example initial_scale_example canvas_size_example
      canvas_size_lambda_example max_dim_def)


subsection \<open>Python floats\<close>

lemma round_half_even_of_int [simp]: "round_half_even (of_int n) = n"
  by (simp add: round_half_even_def)

lemma round_half_even_ge_floor: "\<lfloor>y\<rfloor> \<le> round_half_even y"
  by (simp add: round_half_even_def Let_def)

lemma to_double_0 [simp]: "to_double 0 = 0"
  by (simp add: to_double_def)

lemma to_double_pos:
  assumes "0 < x"
  shows "0 < to_double x"
proof -
  define E :: real where "E = real_of_int \<lfloor>log 2 x\<rfloor> - 52"
  have p: "0 < (2::real) powr E" by simp
  have "(2::real) powr real_of_int \<lfloor>log 2 x\<rfloor> \<le> 2 powr log 2 x"
    by (simp add: powr_le_cancel_iff)
  also have "\<dots> = x" using assms by simp
  finally have low: "(2::real) powr real_of_int \<lfloor>log 2 x\<rfloor> \<le> x" .
  have "(2::real) powr real_of_int \<lfloor>log 2 x\<rfloor> = 2 powr (E + 52)"
    by (simp add: E_def)
  also have "\<dots> = 2 powr E * 2 powr 52"
    by (rule powr_add)
  finally have "2 powr E * 2 powr 52 \<le> x"
    using low by simp
  moreover have "(1::real) \<le> 2 powr 52" by simp
  ultimately have "2 powr E * 1 \<le> x"
    using p by (meson mult_left_mono less_imp_le order_trans)
  then have "1 \<le> x / 2 powr E"
    using p by (simp add: pos_le_divide_eq mult.commute)
  then have "1 \<le> \<lfloor>x / 2 powr E\<rfloor>" by simp
  then have "0 < round_half_even (x / 2 powr E)"
    using round_half_even_ge_floor [of "x / 2 powr E"] by linarith
  then have "0 < real_of_int (round_half_even (x / 2 powr E)) * 2 powr E"
    using p by simp
  then show ?thesis
    using assms by (simp add: to_double_def E_def Let_def)
qed

lemma to_double_nonneg: "0 \<le> x \<Longrightarrow> 0 \<le> to_double x"
  using to_double_pos [of x] by (cases "x = 0") (simp_all add: less_le)

lemma to_double_scaled:
  fixes x :: real and k :: nat
  assumes lo: "2 ^ 52 \<le> x * 2 ^ k" and hi: "x * 2 ^ k < 2 ^ 53"
  shows "to_double x = of_int (round_half_even (x * 2 ^ k)) / 2 ^ k"
proof -
  have x: "0 < x"
  proof (rule ccontr)
    assume "\<not> 0 < x"
    then have "x * 2 ^ k \<le> 0" by (simp add: mult_le_0_iff)
    with lo show False by (smt (verit) zero_less_power)
  qed
  have l: "log 2 (x * 2 ^ k) = log 2 x + real k"
    using x by (simp add: log_mult log_nat_power)
  have l52: "log 2 ((2::real) ^ 52) = 52" and l53: "log 2 ((2::real) ^ 53) = 53"
    by (subst log_nat_power; simp)+
  have "log 2 (2 ^ 52) \<le> log 2 (x * 2 ^ k)"
    using lo x by (subst log_le_cancel_iff) simp_all
  then have a: "52 \<le> log 2 x + real k"
    unfolding l l52 .
  have "log 2 (x * 2 ^ k) < log 2 (2 ^ 53)"
    using hi x by (subst log_less_cancel_iff) simp_all
  then have b: "log 2 x + real k < 53"
    unfolding l l53 .
  have "\<lfloor>log 2 x\<rfloor> = 52 - int k"
    using a b by (intro floor_unique) simp_all
  then have e: "real_of_int \<lfloor>log 2 x\<rfloor> - 52 = - real k"
    by simp
  have p: "(2::real) powr (- real k) = 1 / 2 ^ k"
    by (simp add: powr_minus powr_realpow inverse_eq_divide)
  show ?thesis
    using x by (simp add: to_double_def e p Let_def)
qed


lemma to_double_of_nat:
  assumes "n < 2 ^ 53"
  shows "to_double (real n) = real n"
proof (cases "n = 0")
  case True
  then show ?thesis by simp
next
  case False
  define k where "k = (LEAST k. 2 ^ 52 \<le> n * 2 ^ k)"
  have "(2::nat) ^ 52 \<le> n * 2 ^ 52" using False by simp
  then have lo: "2 ^ 52 \<le> n * 2 ^ k"
    unfolding k_def by (rule LeastI)
  have hi: "n * 2 ^ k < 2 ^ 53"
  proof (cases k)
    case 0
    with assms show ?thesis by simp
  next
    case (Suc j)
    have "j < k" using Suc by simp
    then have "\<not> 2 ^ 52 \<le> n * 2 ^ j"
      unfolding k_def by (rule not_less_Least)
    then have "n * 2 ^ j < 2 ^ 52" by simp
    then have "2 * (n * 2 ^ j) < 2 * 2 ^ 52" by simp
    then show ?thesis using Suc by (simp add: mult.commute mult.left_commute)
  qed
  have r: "real n * 2 ^ k = real_of_int (int (n * 2 ^ k))" by simp
  have "(2::real) ^ 52 \<le> real (n * 2 ^ k)" using lo by (metis of_nat_le_iff of_nat_numeral of_nat_power)
  moreover have "real (n * 2 ^ k) < 2 ^ 53" using hi by (metis of_nat_less_iff of_nat_numeral of_nat_power)
  ultimately have "to_double (real n) = real_of_int (round_half_even (real n * 2 ^ k)) / 2 ^ k"
    by (intro to_double_scaled) simp_all
  also have "\<dots> = real n"
    unfolding r round_half_even_of_int by simp
  finally show ?thesis .
qed

lemma fold_fadd_nat:
  "a + sum_list ns < 2 ^ 53 \<Longrightarrow>
   fold (\<lambda>v acc. fadd acc v) (map real ns) (real a) = real (a + sum_list ns)"
proof (induction ns arbitrary: a)
  case Nil
  then show ?case by simp
next
  case (Cons n ns)
  have "a + n < 2 ^ 53" using Cons.prems by simp
  then have "fadd (real a) (real n) = real (a + n)"
    using to_double_of_nat [of "a + n"] by (simp add: fadd_def)
  moreover have "(a + n) + sum_list ns < 2 ^ 53" using Cons.prems by (simp add: add.assoc)
  ultimately show ?case
    using Cons.IH [of "a + n"] by (simp add: add.assoc)
qed

lemma py_sum_nat:
  "sum_list ns < 2 ^ 53 \<Longrightarrow> py_sum (map real ns) = real (sum_list ns)"
  using fold_fadd_nat [of 0 ns] by (simp add: py_sum_def)

lemma fold_fadd_nonneg:
  "0 \<le> a \<Longrightarrow> \<forall>v\<in>set vs. 0 \<le> v \<Longrightarrow> 0 \<le> fold (\<lambda>v acc. fadd acc v) vs a"
proof (induction vs arbitrary: a)
  case Nil
  then show ?case by simp
next
  case (Cons v vs)
  have "0 \<le> fadd a v" using Cons.prems by (simp add: fadd_def to_double_nonneg)
  then show ?case using Cons by simp
qed

lemma py_sum_nonneg: "\<forall>v\<in>set vs. 0 \<le> v \<Longrightarrow> 0 \<le> py_sum vs"
  by (simp add: py_sum_def fold_fadd_nonneg)

lemma fdiv_0 [simp]: "fdiv 0 b = 0" by (simp add: fdiv_def)
lemma fmul_0 [simp]: "fmul 0 b = 0" by (simp add: fmul_def)
lemma round_half_even_0 [simp]: "round_half_even 0 = 0"
  using round_half_even_of_int [of 0] by simp

lemma py_round_0 [simp]: "py_round n 0 = 0"
  by (simp add: py_round_def)

lemma to_double_numeral:
  "(numeral n :: nat) < 2 ^ 53 \<Longrightarrow> to_double (numeral n) = numeral n"
  using to_double_of_nat [of "numeral n"] by simp

lemma py_round_numeral:
  assumes "(numeral n :: nat) < 2 ^ 53"
  shows "py_round k (numeral n) = numeral n"
proof -
  have "(numeral n :: real) * 10 ^ k = real_of_int (numeral n * 10 ^ k)" by simp
  then have "round_half_even (numeral n * 10 ^ k) = numeral n * 10 ^ k"
    by (simp only: round_half_even_of_int)
  then show ?thesis
    by (simp add: py_round_def to_double_numeral [OF assms])
qed

subsection \<open>Area statistics\<close>

lemma distinct_CLASS_NAMES: "distinct CLASS_NAMES"
  by (simp add: CLASS_NAMES_def)

lemma length_CLASS_NAMES: "length CLASS_NAMES = 11"
  by (simp add: CLASS_NAMES_def)

lemma CLASS_NAMES_inj: "i < 11 \<Longrightarrow> j < 11 \<Longrightarrow> CLASS_NAMES ! i = CLASS_NAMES ! j \<longleftrightarrow> i = j"
  using distinct_CLASS_NAMES by (simp add: nth_eq_iff_index_eq length_CLASS_NAMES)

lemma dict_set_fresh: "k \<notin> fst ` set d \<Longrightarrow> dict_set d k v = d @ [(k, v)]"
  by (induction d) auto

lemma fold_dict_set_fresh:
  "distinct (map key xs) \<Longrightarrow> key ` set xs \<inter> fst ` set d = {} \<Longrightarrow>
   fold (\<lambda>x d. dict_set d (key x) (val x)) xs d = d @ map (\<lambda>x. (key x, val x)) xs"
proof (induction xs arbitrary: d)
  case Nil
  then show ?case by simp
next
  case (Cons x xs)
  from Cons.prems have fresh: "key x \<notin> fst ` set d" by auto
  have "key ` set xs \<inter> fst ` set (d @ [(key x, val x)]) = {}"
    using Cons.prems by auto
  moreover have "distinct (map key xs)" using Cons.prems by simp
  ultimately have "fold (\<lambda>x d. dict_set d (key x) (val x)) xs (d @ [(key x, val x)])
      = (d @ [(key x, val x)]) @ map (\<lambda>x. (key x, val x)) xs"
    by (rule Cons.IH [rotated])
  then show ?case by (simp add: dict_set_fresh [OF fresh])
qed

lemma fold_guard: "fold (\<lambda>x d. if P x then F x d else d) xs d = fold F (filter P xs) d"
  by (induction xs arbitrary: d) auto

lemma distinct_class_keys:
  assumes "distinct (map fst hist)"
  shows "distinct (map (\<lambda>x. CLASS_NAMES ! fst x) (filter (\<lambda>x. fst x < 11) hist))"
  using assms
proof (induction hist)
  case Nil
  then show ?case by simp
next
  case (Cons x hist)
  have IH: "distinct (map (\<lambda>x. CLASS_NAMES ! fst x) (filter (\<lambda>x. fst x < 11) hist))"
    using Cons by simp
  show ?case
  proof (cases "fst x < 11")
    case True
    have "CLASS_NAMES ! fst x \<notin> (\<lambda>y. CLASS_NAMES ! fst y) ` set (filter (\<lambda>y. fst y < 11) hist)"
    proof
      assume "CLASS_NAMES ! fst x \<in> (\<lambda>y. CLASS_NAMES ! fst y) ` set (filter (\<lambda>y. fst y < 11) hist)"
      then obtain y where y: "y \<in> set hist" "fst y < 11" "CLASS_NAMES ! fst y = CLASS_NAMES ! fst x"
        by auto
      then have "fst y = fst x" using True by (simp add: CLASS_NAMES_inj)
      then have "fst x \<in> fst ` set hist" using y(1) by (metis imageI)
      with Cons.prems show False by simp
    qed
    then show ?thesis using IH True by simp
  next
    case False
    then show ?thesis using IH by simp
  qed
qed

lemma totals_eq:
  assumes "distinct (map fst hist)"
  shows "totals hist = map (\<lambda>x. (CLASS_NAMES ! fst x, snd x)) (filter (\<lambda>x. fst x < 11) hist)"
proof -
  have "(\<lambda>(k, v) d. if k < length CLASS_NAMES then dict_set d (CLASS_NAMES ! k) v else d)
        = (\<lambda>x d. if fst x < 11 then dict_set d (CLASS_NAMES ! fst x) (snd x) else d)"
    by (auto simp: fun_eq_iff length_CLASS_NAMES)
  then have "totals hist =
        fold (\<lambda>x d. if fst x < 11 then dict_set d (CLASS_NAMES ! fst x) (snd x) else d) hist []"
    unfolding totals_def by (rule arg_cong [of _ _ "\<lambda>F. fold F hist []"])
  also have "\<dots> = fold (\<lambda>x d. dict_set d (CLASS_NAMES ! fst x) (snd x))
                     (filter (\<lambda>x. fst x < 11) hist) []"
    by (rule fold_guard)
  also have "\<dots> = [] @ map (\<lambda>x. (CLASS_NAMES ! fst x, snd x)) (filter (\<lambda>x. fst x < 11) hist)"
    by (rule fold_dict_set_fresh) (simp_all add: distinct_class_keys [OF assms])
  finally show ?thesis by simp
qed

lemma map_of_class_keys:
  assumes "k < 11"
  shows "map_of (map (\<lambda>x. (CLASS_NAMES ! fst x, g (snd x))) (filter (\<lambda>x. fst x < 11) hist))
           (CLASS_NAMES ! k) = map_option g (map_of hist k)"
  using assms by (induction hist) (auto simp: CLASS_NAMES_inj)

lemma map_of_setdefaults:
  "map_of (fold (\<lambda>name d. setdefault d name z) names d) n =
   (case map_of d n of Some v \<Rightarrow> Some v | None \<Rightarrow> if n \<in> set names then Some z else None)"
proof (induction names arbitrary: d)
  case Nil
  then show ?case by (simp split: option.splits)
next
  case (Cons a names)
  have mem: "a \<in> fst ` set d \<longleftrightarrow> map_of d a \<noteq> None"
    by (simp add: map_of_eq_None_iff)
  have "map_of (setdefault d a z) n =
        (case map_of d n of Some v \<Rightarrow> Some v | None \<Rightarrow> if n = a then Some z else None)"
    unfolding setdefault_def mem by (auto simp: map_add_def split: option.splits)
  then show ?case
    by (simp add: Cons.IH split: option.splits)
qed

lemma calculate_area_statistics_returns:
  "\<exists>st. calculate_area_statistics hist total_area d dir = Inr (st, stats_file_name dir d)"
proof -
  have "map_of (areas hist total_area) n \<noteq> None" if "n \<in> set CLASS_NAMES" for n
    using that by (simp add: areas_def Let_def map_of_setdefaults split: option.splits)
  then have "map_of (areas hist total_area) Natural_forest \<noteq> None"
    and "map_of (areas hist total_area) Trees \<noteq> None"
    by (simp_all add: CLASS_NAMES_def)
  then show ?thesis
    by (auto simp: calculate_area_statistics_def dict_get_def Let_def split: option.splits)
qed


lemma pixel_sum_guarded:
  assumes "distinct (map fst hist)"
  shows "pixel_sum hist = py_sum (map snd (filter (\<lambda>x. fst x < 11) hist))"
  by (simp add: pixel_sum_def totals_eq [OF assms] comp_def)

lemma pixel_sum_all:
  assumes "distinct (map fst hist)" "\<forall>e\<in>set hist. fst e < 11"
  shows "pixel_sum hist = py_sum (map snd hist)"
proof -
  have "filter (\<lambda>x. fst x < 11) hist = hist"
    using assms(2) by (simp add: filter_id_conv)
  then show ?thesis by (simp add: pixel_sum_guarded [OF assms(1)])
qed

lemma areas_computed:
  assumes d: "distinct (map fst hist)"
  shows "areas hist total_area =
         fold (\<lambda>name d. setdefault d name 0) CLASS_NAMES
           (map (\<lambda>x. (CLASS_NAMES ! fst x,
                       if pixel_sum hist \<noteq> 0
                       then py_round 5 (fmul (fdiv (snd x) (pixel_sum hist)) total_area) else 0))
              (filter (\<lambda>x. fst x < 11) hist))"
proof -
  define f where "f = (\<lambda>v. if pixel_sum hist \<noteq> 0
     then py_round 5 (fmul (fdiv v (pixel_sum hist)) total_area) else 0)"
  have keys: "distinct (map fst (totals hist))"
    using distinct_class_keys [OF d] by (simp add: totals_eq [OF d] comp_def)
  have "(\<lambda>(k, v) d. dict_set d k (f v)) = (\<lambda>x d. dict_set d (fst x) (f (snd x)))"
    by (auto simp: fun_eq_iff)
  then have "fold (\<lambda>(k, v) d. dict_set d k (f v)) (totals hist) []
        = fold (\<lambda>x d. dict_set d (fst x) (f (snd x))) (totals hist) []"
    by (rule arg_cong [of _ _ "\<lambda>F. fold F (totals hist) []"])
  also have "\<dots> = [] @ map (\<lambda>x. (fst x, f (snd x))) (totals hist)"
    by (rule fold_dict_set_fresh) (simp_all add: keys)
  also have "\<dots> = map (\<lambda>x. (CLASS_NAMES ! fst x, f (snd x))) (filter (\<lambda>x. fst x < 11) hist)"
    by (simp add: totals_eq [OF d] comp_def)
  finally have computed: "fold (\<lambda>(k, v) d. dict_set d k (f v)) (totals hist) []
        = map (\<lambda>x. (CLASS_NAMES ! fst x, f (snd x))) (filter (\<lambda>x. fst x < 11) hist)" .
  have "areas hist total_area =
        fold (\<lambda>name d. setdefault d name 0) CLASS_NAMES
          (fold (\<lambda>(k, v) d. dict_set d k (f v)) (totals hist) [])"
    by (simp add: areas_def f_def Let_def)
  then show ?thesis
    unfolding computed by (simp add: f_def)
qed

lemma areas_lookup:
  assumes d: "distinct (map fst hist)" and k: "k < 11"
  shows "map_of (areas hist total_area) (CLASS_NAMES ! k) =
         Some (if pixel_sum hist \<noteq> 0
               then py_round 5 (fmul (fdiv (count_of hist k) (pixel_sum hist)) total_area)
               else 0)"
proof -
  define f where "f = (\<lambda>v. if pixel_sum hist \<noteq> 0
     then py_round 5 (fmul (fdiv v (pixel_sum hist)) total_area) else 0)"
  have f0: "f 0 = 0" by (simp add: f_def)
  have mem: "CLASS_NAMES ! k \<in> set CLASS_NAMES"
    using k by (simp add: length_CLASS_NAMES)
  have ac: "areas hist total_area =
         fold (\<lambda>name d. setdefault d name 0) CLASS_NAMES
           (map (\<lambda>x. (CLASS_NAMES ! fst x, f (snd x))) (filter (\<lambda>x. fst x < 11) hist))"
    by (simp add: areas_computed [OF d] f_def)
  have "map_of (areas hist total_area) (CLASS_NAMES ! k) =
        (case map_option f (map_of hist k) of Some v \<Rightarrow> Some v | None \<Rightarrow> Some 0)"
    unfolding ac using mem by (simp add: map_of_setdefaults map_of_class_keys [OF k])
  also have "\<dots> = Some (f (count_of hist k))"
    by (simp add: count_of_def f0 split: option.splits)
  finally show ?thesis by (simp add: f_def)
qed

lemma setdefault_distinct:
  "distinct (map fst d) \<Longrightarrow> distinct (map fst (setdefault d k v))"
  by (simp add: setdefault_def)

lemma fold_setdefault_distinct:
  "distinct (map fst d) \<Longrightarrow> distinct (map fst (fold (\<lambda>name d. setdefault d name z) names d))"
  by (induction names arbitrary: d) (simp_all add: setdefault_distinct)

lemma areas_distinct:
  assumes "distinct (map fst hist)"
  shows "distinct (map fst (areas hist total_area))"
  unfolding areas_computed [OF assms]
  using distinct_class_keys [OF assms] by (intro fold_setdefault_distinct) (simp add: comp_def)

lemma map_of_map_filter:
  "distinct (map fst xs) \<Longrightarrow>
   map_of (map (\<lambda>x. (fst x, g (snd x))) (filter (\<lambda>x. Q (snd x)) xs)) n =
   (case map_of xs n of Some v \<Rightarrow> if Q v then Some (g v) else None | None \<Rightarrow> None)"
proof (induction xs)
  case Nil
  then show ?case by simp
next
  case (Cons x xs)
  have IH: "map_of (map (\<lambda>x. (fst x, g (snd x))) (filter (\<lambda>x. Q (snd x)) xs)) n =
   (case map_of xs n of Some v \<Rightarrow> if Q v then Some (g v) else None | None \<Rightarrow> None)"
    using Cons by simp
  show ?case
  proof (cases "fst x = n")
    case True
    then have "n \<notin> fst ` set xs" using Cons.prems by auto
    then have none: "map_of xs n = None" by (simp add: map_of_eq_None_iff)
    show ?thesis
      using True IH none by (cases x) simp
  next
    case False
    then show ?thesis using IH by (cases x) auto
  qed
qed

lemma insort_key_distinct_keys:
  "distinct (map fst (insort_key h x xs)) \<longleftrightarrow> fst x \<notin> fst ` set xs \<and> distinct (map fst xs)"
  by (induction xs) (auto simp: set_insort_key)

lemma sort_key_distinct_keys:
  "distinct (map fst (sort_key h xs)) \<longleftrightarrow> distinct (map fst xs)"
  by (induction xs) (simp_all add: sort_key_simps insort_key_distinct_keys)

lemma land_cover_lookup:
  assumes d: "distinct (map fst as)"
  shows "map_of (land_cover as total_area) n =
         (case map_of as n of
            Some val \<Rightarrow>
              if 0 < val
              then Some \<lparr>area_km2 = val,
                         percentage = (if total_area \<noteq> 0
                                       then py_round 5 (fmul (fdiv val total_area) 100) else 0)\<rparr>
              else None
          | None \<Rightarrow> None)"
proof -
  define g where "g = (\<lambda>val. \<lparr>area_km2 = val,
     percentage = (if total_area \<noteq> 0 then py_round 5 (fmul (fdiv val total_area) 100) else 0)\<rparr>)"
  define xs where "xs = sort_key (\<lambda>(name, val). - val) as"
  have dx: "distinct (map fst xs)"
    using d by (simp add: xs_def sort_key_distinct_keys)
  have sx: "set xs = set as" by (simp add: xs_def)
  have m: "map_of xs = map_of as"
    using dx d sx by (simp add: map_of_inject_set)
  have "(\<lambda>(name, val) d. if 0 < val then dict_set d name (g val) else d)
        = (\<lambda>x d. if 0 < snd x then dict_set d (fst x) (g (snd x)) else d)"
    by (auto simp: fun_eq_iff)
  then have "fold (\<lambda>(name, val) d. if 0 < val then dict_set d name (g val) else d) xs []
        = fold (\<lambda>x d. if 0 < snd x then dict_set d (fst x) (g (snd x)) else d) xs []"
    by (rule arg_cong [of _ _ "\<lambda>F. fold F xs []"])
  also have "\<dots> = fold (\<lambda>x d. dict_set d (fst x) (g (snd x))) (filter (\<lambda>x. 0 < snd x) xs) []"
    by (rule fold_guard)
  also have "\<dots> = [] @ map (\<lambda>x. (fst x, g (snd x))) (filter (\<lambda>x. 0 < snd x) xs)"
    using dx by (intro fold_dict_set_fresh) (simp_all add: distinct_map_filter)
  finally have F: "fold (\<lambda>(name, val) d. if 0 < val then dict_set d name (g val) else d) xs []
        = map (\<lambda>x. (fst x, g (snd x))) (filter (\<lambda>x. 0 < snd x) xs)"
    by simp
  have L: "land_cover as total_area =
        fold (\<lambda>(name, val) d. if 0 < val then dict_set d name (g val) else d) xs []"
    unfolding land_cover_def g_def xs_def by (rule refl)
  have "map_of (land_cover as total_area) n =
        (case map_of as n of Some v \<Rightarrow> if 0 < v then Some (g v) else None | None \<Rightarrow> None)"
    unfolding L F by (simp add: map_of_map_filter [OF dx] m)
  then show ?thesis
    unfolding g_def .
qed


lemma quotient_40_100: "fmul (fdiv 40 100) 100 = 40"
proof -
  have a: "fdiv 40 100 = 3602879701896397 / 2 ^ 53"
    unfolding fdiv_def by (subst to_double_scaled [where k = 54]) (simp_all add: round_half_even_def)
  show ?thesis
    unfolding fmul_def a by (subst to_double_scaled [where k = 47]) (simp_all add: round_half_even_def)
qed

lemma quotient_10_100: "fmul (fdiv 10 100) 100 = 10"
proof -
  have a: "fdiv 10 100 = 3602879701896397 / 2 ^ 55"
    unfolding fdiv_def by (subst to_double_scaled [where k = 56]) (simp_all add: round_half_even_def)
  show ?thesis
    unfolding fmul_def a by (subst to_double_scaled [where k = 49]) (simp_all add: round_half_even_def)
qed

lemma quotient_50_100: "fmul (fdiv 50 100) 100 = 50"
proof -
  have a: "fdiv 50 100 = 1 / 2"
    unfolding fdiv_def by (subst to_double_scaled [where k = 53]) (simp_all add: round_half_even_def)
  show ?thesis
    unfolding fmul_def a by (subst to_double_scaled [where k = 47]) (simp_all add: round_half_even_def)
qed

lemma quotient_10_50: "fmul (fdiv 10 50) 100 = 20"
proof -
  have a: "fdiv 10 50 = 3602879701896397 / 2 ^ 54"
    unfolding fdiv_def by (subst to_double_scaled [where k = 55]) (simp_all add: round_half_even_def)
  show ?thesis
    unfolding fmul_def a by (subst to_double_scaled [where k = 48]) (simp_all add: round_half_even_def)
qed

lemma quotient_40_50: "fmul (fdiv 40 50) 100 = 80"
proof -
  have a: "fdiv 40 50 = 3602879701896397 / 2 ^ 52"
    unfolding fdiv_def by (subst to_double_scaled [where k = 53]) (simp_all add: round_half_even_def)
  show ?thesis
    unfolding fmul_def a by (subst to_double_scaled [where k = 46]) (simp_all add: round_half_even_def)
qed

lemmas example_quotients =
  quotient_40_100 quotient_10_100 quotient_50_100 quotient_10_50 quotient_40_50

lemma totals_example: "totals example_hist = [(Trees, 40), (Natural_forest, 10), (Water, 50)]"
  by (simp add: totals_def CLASS_NAMES_def example_hist_def)

lemma pixel_sum_example: "pixel_sum example_hist = 100"
  by (simp add: pixel_sum_def totals_example py_sum_def fadd_def to_double_numeral)

lemma areas_example: "areas example_hist 100 =
   [(Trees, 40), (Natural_forest, 10), (Water, 50), (Grass, 0), (Flooded_vegetation, 0), (Crops, 0),
     (Shrub_and_scrub, 0), (Built, 0), (Bare, 0), (Snow_and_ice, 0), (Cloud, 0)]"
  by (simp add: areas_def pixel_sum_example totals_example setdefault_def CLASS_NAMES_def
      example_quotients py_round_numeral)

lemma land_cover_example: "land_cover (areas example_hist 100) 100 =
   [(Water, \<lparr>area_km2 = 50, percentage = 50\<rparr>), (Trees, \<lparr>area_km2 = 40, percentage = 40\<rparr>),
    (Natural_forest, \<lparr>area_km2 = 10, percentage = 10\<rparr>)]"
  unfolding areas_example land_cover_def
  by (simp add: example_quotients py_round_numeral)

lemma calculate_area_statistics_example:
  "calculate_area_statistics example_hist 100 d dir =
     Inr (\<lparr>date_of = d, total_area_km2 = 100, forest_area_km2 = 50, natural_forest_km2 = 10,
           natural_forest_percentage = 20, other_trees_km2 = 40, other_trees_percentage = 80,
           land_cover_classes = [(Water, \<lparr>area_km2 = 50, percentage = 50\<rparr>),
             (Trees, \<lparr>area_km2 = 40, percentage = 40\<rparr>),
             (Natural_forest, \<lparr>area_km2 = 10, percentage = 10\<rparr>)]\<rparr>,
          stats_file_name dir d)"
  unfolding calculate_area_statistics_def land_cover_example
  by (simp add: dict_get_def areas_example fadd_def to_double_numeral example_quotients
      py_round_numeral)

lemma pixel_sum_fraction: "pixel_sum fraction_hist = 200000"
  by (simp add: pixel_sum_def totals_def CLASS_NAMES_def fraction_hist_def py_sum_def fadd_def
      to_double_numeral to_double_of_nat [of 1, simplified])

lemma water_fraction:
  "py_round 5 (fmul (fdiv 1 200000) 1) = to_double (1 / 100000)"
proof -
  have a: "fdiv 1 200000 = 5902958103587057 / 2 ^ 70"
    unfolding fdiv_def by (subst to_double_scaled [where k = 70]) (simp_all add: round_half_even_def)
  have b: "fmul (5902958103587057 / 2 ^ 70) 1 = 5902958103587057 / 2 ^ 70"
    unfolding fmul_def by (subst to_double_scaled [where k = 70]) (simp_all add: round_half_even_def)
  have c: "round_half_even (5902958103587057 / 2 ^ 70 * 10 ^ 5) = 1"
    by (simp add: round_half_even_def)
  show ?thesis
    unfolding a b py_round_def c by simp
qed

lemma trees_fraction:
  "py_round 5 (fmul (fdiv 199999 200000) 1) = to_double (99999 / 100000)"
proof -
  have a: "fdiv 199999 200000 = 4503577109372359 / 2 ^ 52"
    unfolding fdiv_def by (subst to_double_scaled [where k = 53]) (simp_all add: round_half_even_def)
  have b: "fmul (4503577109372359 / 2 ^ 52) 1 = 4503577109372359 / 2 ^ 52"
    unfolding fmul_def by (subst to_double_scaled [where k = 53]) (simp_all add: round_half_even_def)
  have c: "round_half_even (4503577109372359 / 2 ^ 52 * 10 ^ 5) = 99999"
    by (simp add: round_half_even_def)
  show ?thesis
    unfolding a b py_round_def c by simp
qed

lemma double_1e_5: "to_double (1 / 100000) = 5902958103587057 / 2 ^ 69"
  by (subst to_double_scaled [where k = 69]) (simp_all add: round_half_even_def)

lemma double_0_99999: "to_double (99999 / 100000) = 9007109182748445 / 2 ^ 53"
  by (subst to_double_scaled [where k = 53]) (simp_all add: round_half_even_def)


lemma class_area_eq:
  assumes d: "distinct (map fst hist)" and c: "\<forall>e\<in>set hist. fst e < 11 \<and> 0 \<le> snd e"
  shows "(if pixel_sum hist \<noteq> 0
          then py_round 5 (fmul (fdiv (count_of hist k) (pixel_sum hist)) total_area) else 0)
         = class_area hist total_area k"
proof -
  have s: "pixel_sum hist = py_sum (map snd hist)"
    using d c by (intro pixel_sum_all) auto
  have "0 \<le> py_sum (map snd hist)"
    using c by (intro py_sum_nonneg) auto
  then show ?thesis
    by (auto simp: class_area_def s)
qed

lemma areas_fraction:
  "map_of (areas fraction_hist 1) Water = Some (to_double (1 / 100000))"
  "map_of (areas fraction_hist 1) Trees = Some (to_double (99999 / 100000))"
proof -
  have d: "distinct (map fst fraction_hist)" by (simp add: fraction_hist_def)
  have c: "count_of fraction_hist 0 = 1" "count_of fraction_hist 1 = 199999"
    by (simp_all add: count_of_def fraction_hist_def)
  have n: "CLASS_NAMES ! 0 = Water" "CLASS_NAMES ! 1 = Trees"
    by (simp_all add: CLASS_NAMES_def)
  have "map_of (areas fraction_hist 1) (CLASS_NAMES ! 0) = Some (to_double (1 / 100000))"
    unfolding areas_lookup [OF d, of 0 1, simplified] c pixel_sum_fraction
    by (simp add: water_fraction)
  then show "map_of (areas fraction_hist 1) Water = Some (to_double (1 / 100000))"
    unfolding n .
  have "map_of (areas fraction_hist 1) (CLASS_NAMES ! 1) = Some (to_double (99999 / 100000))"
    using areas_lookup [OF d, of 1 1] unfolding c pixel_sum_fraction
    by (simp add: trees_fraction)
  then show "map_of (areas fraction_hist 1) Trees = Some (to_double (99999 / 100000))"
    unfolding n .
qed

text \<open>
  Claim C1. For every histogram over the eleven class codes (each code at most once, no
  negative count) and every ground-truth area, \<open>pixel_sum\<close> is the sum of all counts of the
  histogram (the exact sum when the counts are whole numbers), and the area of each of the
  eleven classes is \<open>round((count / pixel_sum) * total_area, 5)\<close> when \<open>pixel_sum > 0\<close> and
  \<open>0\<close> otherwise, a class absent from the histogram having area \<open>0\<close>; the report that
  \<open>calculate_area_statistics\<close> returns carries these areas, for natural forest, for trees
  and in the entry of every class of positive area. For the histogram with 40 pixels of
  trees, 10 of natural forest and 50 of water, and the area 100, the report has
  \<open>natural_forest_km2 = 10\<close>, \<open>other_trees_km2 = 40\<close>, \<open>forest_area_km2 = 50\<close>,
  \<open>natural_forest_percentage = 20\<close> and \<open>other_trees_percentage = 80\<close>. For one pixel of
  water and 199999 of trees, and the area 1, the areas are the doubles \<open>1e-05\<close> and
  \<open>0.99999\<close>.
\<close>

theorem calculate_area_statistics_areas:
  assumes d: "distinct (map fst hist)"
    and c: "\<forall>e\<in>set hist. fst e < 11 \<and> 0 \<le> snd e"
  shows "pixel_sum hist = py_sum (map snd hist)
       \<and> (\<forall>ns. map snd hist = map real ns \<and> sum_list ns < 2 ^ 53 \<longrightarrow>
             pixel_sum hist = real (sum_list ns))
       \<and> (\<forall>k<11. map_of (areas hist total_area) (CLASS_NAMES ! k) =
             Some (class_area hist total_area k))
       \<and> (\<forall>k<11. k \<notin> fst ` set hist \<longrightarrow> class_area hist total_area k = 0)
       \<and> (\<exists>st. calculate_area_statistics hist total_area image_date output_dir =
                  Inr (st, stats_file_name output_dir image_date)
             \<and> natural_forest_km2 st = py_round 5 (class_area hist total_area 10)
             \<and> other_trees_km2 st = py_round 5 (class_area hist total_area 1)
             \<and> forest_area_km2 st =
                 py_round 5 (fadd (class_area hist total_area 10) (class_area hist total_area 1))
             \<and> (\<forall>k<11. map_of (land_cover_classes st) (CLASS_NAMES ! k) =
                   (if 0 < class_area hist total_area k
                    then Some \<lparr>area_km2 = class_area hist total_area k,
                               percentage =
                                 (if total_area \<noteq> 0
                                  then py_round 5 (fmul (fdiv (class_area hist total_area k)
                                                           total_area) 100)
                                  else 0)\<rparr>
                    else None)))
       \<and> calculate_area_statistics example_hist 100 image_date output_dir =
           Inr (\<lparr>date_of = image_date, total_area_km2 = 100, forest_area_km2 = 50,
                 natural_forest_km2 = 10, natural_forest_percentage = 20,
                 other_trees_km2 = 40, other_trees_percentage = 80,
                 land_cover_classes =
                   [(Water, \<lparr>area_km2 = 50, percentage = 50\<rparr>),
                    (Trees, \<lparr>area_km2 = 40, percentage = 40\<rparr>),
                    (Natural_forest, \<lparr>area_km2 = 10, percentage = 10\<rparr>)]\<rparr>,
                stats_file_name output_dir image_date)
       \<and> map_of (areas fraction_hist 1) Water = Some (to_double (1 / 100000))
       \<and> map_of (areas fraction_hist 1) Trees = Some (to_double (99999 / 100000))
       \<and> to_double (1 / 100000) = 5902958103587057 / 2 ^ 69
       \<and> to_double (99999 / 100000) = 9007109182748445 / 2 ^ 53"
proof -
  have keys: "\<forall>e\<in>set hist. fst e < 11" using c by auto
  have sum: "pixel_sum hist = py_sum (map snd hist)"
    by (rule pixel_sum_all [OF d keys])
  have exact: "pixel_sum hist = real (sum_list ns)"
    if "map snd hist = map real ns \<and> sum_list ns < 2 ^ 53" for ns
    using that by (simp add: sum py_sum_nat)
  have look: "map_of (areas hist total_area) (CLASS_NAMES ! k) = Some (class_area hist total_area k)"
    if "k < 11" for k
    by (simp only: areas_lookup [OF d that] class_area_eq [OF d c])
  have absent: "class_area hist total_area k = 0" if "k \<notin> fst ` set hist" for k
  proof -
    have "map_of hist k = None" using that by (simp add: map_of_eq_None_iff)
    then show ?thesis by (simp add: class_area_def count_of_def)
  qed
  have nf: "map_of (areas hist total_area) Natural_forest = Some (class_area hist total_area 10)"
    using look [of 10] by (simp add: CLASS_NAMES_def)
  have tr: "map_of (areas hist total_area) Trees = Some (class_area hist total_area 1)"
    using look [of 1] by (simp add: CLASS_NAMES_def)
  define st where "st =
     \<lparr>date_of = image_date,
      total_area_km2 = py_round 5 total_area,
      forest_area_km2 = py_round 5 (fadd (class_area hist total_area 10) (class_area hist total_area 1)),
      natural_forest_km2 = py_round 5 (class_area hist total_area 10),
      natural_forest_percentage =
        (if fadd (class_area hist total_area 10) (class_area hist total_area 1) \<noteq> 0
         then py_round 5 (fmul (fdiv (class_area hist total_area 10)
                (fadd (class_area hist total_area 10) (class_area hist total_area 1))) 100)
         else 0),
      other_trees_km2 = py_round 5 (class_area hist total_area 1),
      other_trees_percentage =
        (if fadd (class_area hist total_area 10) (class_area hist total_area 1) \<noteq> 0
         then py_round 5 (fmul (fdiv (class_area hist total_area 1)
                (fadd (class_area hist total_area 10) (class_area hist total_area 1))) 100)
         else 0),
      land_cover_classes = land_cover (areas hist total_area) total_area\<rparr>"
  have ret: "calculate_area_statistics hist total_area image_date output_dir =
        Inr (st, stats_file_name output_dir image_date)"
    by (simp add: calculate_area_statistics_def dict_get_def nf tr st_def Let_def)
  have lc: "map_of (land_cover_classes st) (CLASS_NAMES ! k) =
         (if 0 < class_area hist total_area k
          then Some \<lparr>area_km2 = class_area hist total_area k,
                     percentage =
                       (if total_area \<noteq> 0
                        then py_round 5 (fmul (fdiv (class_area hist total_area k) total_area) 100)
                        else 0)\<rparr>
          else None)" if "k < 11" for k
    by (simp add: st_def land_cover_lookup [OF areas_distinct [OF d]] look [OF that])
  have report: "\<exists>st. calculate_area_statistics hist total_area image_date output_dir =
                  Inr (st, stats_file_name output_dir image_date)
             \<and> natural_forest_km2 st = py_round 5 (class_area hist total_area 10)
             \<and> other_trees_km2 st = py_round 5 (class_area hist total_area 1)
             \<and> forest_area_km2 st =
                 py_round 5 (fadd (class_area hist total_area 10) (class_area hist total_area 1))
             \<and> (\<forall>k<11. map_of (land_cover_classes st) (CLASS_NAMES ! k) =
                   (if 0 < class_area hist total_area k
                    then Some \<lparr>area_km2 = class_area hist total_area k,
                               percentage =
                                 (if total_area \<noteq> 0
                                  then py_round 5 (fmul (fdiv (class_area hist total_area k)
                                                           total_area) 100)
                                  else 0)\<rparr>
                    else None))"
  proof (intro exI [of _ st] conjI allI impI)
    show "calculate_area_statistics hist total_area image_date output_dir =
        Inr (st, stats_file_name output_dir image_date)" by (rule ret)
    show "natural_forest_km2 st = py_round 5 (class_area hist total_area 10)"
      and "other_trees_km2 st = py_round 5 (class_area hist total_area 1)"
      and "forest_area_km2 st =
                 py_round 5 (fadd (class_area hist total_area 10) (class_area hist total_area 1))"
      by (simp_all add: st_def)
  next
    fix k :: nat assume "k < 11"
    then show "map_of (land_cover_classes st) (CLASS_NAMES ! k) =
                   (if 0 < class_area hist total_area k
                    then Some \<lparr>area_km2 = class_area hist total_area k,
                               percentage =
                                 (if total_area \<noteq> 0
                                  then py_round 5 (fmul (fdiv (class_area hist total_area k)
                                                           total_area) 100)
                                  else 0)\<rparr>
                    else None)" by (rule lc)
  qed
  show ?thesis
    using sum exact look absent report
      calculate_area_statistics_example [of image_date output_dir]
      areas_fraction double_1e_5 double_0_99999
    by blast
qed


theorem calculate_area_statistics_areas_witness:
  "distinct (map fst example_hist)
   \<and> pixel_sum example_hist = 100
   \<and> map_of (areas example_hist 100) Trees = Some 40
   \<and> map_of (areas example_hist 100) Natural_forest = Some 10
   \<and> map_of (areas example_hist 100) Water = Some 50
   \<and> map_of (areas example_hist 100) Grass = Some 0"
proof -
  have d: "distinct (map fst example_hist)"
    and c: "\<forall>e\<in>set example_hist. fst e < 11 \<and> 0 \<le> snd e"
    by (simp_all add: example_hist_def)
  note th = calculate_area_statistics_areas [OF d c, of 100 "''2024-05-01''" "''/tmp''"]
  have ns: "map snd example_hist = map real [40, 10, 50] \<and> sum_list [40, 10, 50] < (2::nat) ^ 53"
    by (simp add: example_hist_def)
  from th have "\<forall>ns. map snd example_hist = map real ns \<and> sum_list ns < 2 ^ 53 \<longrightarrow>
             pixel_sum example_hist = real (sum_list ns)"
    by blast
  with ns have "pixel_sum example_hist = real (sum_list [40, 10, 50])"
    by blast
  then have s: "pixel_sum example_hist = 100" by simp
  from th have p: "pixel_sum example_hist = py_sum (map snd example_hist)" by blast
  from th have a: "\<forall>k<11. map_of (areas example_hist 100) (CLASS_NAMES ! k) =
             Some (class_area example_hist 100 k)"
    by blast
  have cnt: "count_of example_hist 1 = 40" "count_of example_hist 10 = 10"
    "count_of example_hist 0 = 50" "count_of example_hist 2 = 0"
    by (simp_all add: count_of_def example_hist_def)
  have ca: "class_area example_hist 100 1 = 40" "class_area example_hist 100 10 = 10"
    "class_area example_hist 100 0 = 50" "class_area example_hist 100 2 = 0"
    unfolding class_area_def p [symmetric] s cnt
    by (simp_all add: example_quotients py_round_numeral)
  have "map_of (areas example_hist 100) (CLASS_NAMES ! 1) = Some 40"
    using a [rule_format, of 1] unfolding ca by simp
  moreover have "map_of (areas example_hist 100) (CLASS_NAMES ! 10) = Some 10"
    using a [rule_format, of 10] unfolding ca by simp
  moreover have "map_of (areas example_hist 100) (CLASS_NAMES ! 0) = Some 50"
    using a [rule_format, of 0] unfolding ca by simp
  moreover have "map_of (areas example_hist 100) (CLASS_NAMES ! 2) = Some 0"
    using a [rule_format, of 2] unfolding ca by simp
  ultimately have "map_of (areas example_hist 100) Trees = Some 40
    \<and> map_of (areas example_hist 100) Natural_forest = Some 10
    \<and> map_of (areas example_hist 100) Water = Some 50
    \<and> map_of (areas example_hist 100) Grass = Some 0"
    by (simp add: CLASS_NAMES_def)
  then show ?thesis
    using d s by blast
qed


subsection \<open>The run: cloud cover\<close>


lemma calculate_area_statistics_lambda_returns:
  "\<exists>st. calculate_area_statistics_lambda hist total_area d dir = Inr (st, stats_file_name dir d)"
proof -
  have "map_of (class_areas_lambda hist total_area) n \<noteq> None" if "n \<in> set CLASS_NAMES" for n
    using that
    by (simp add: class_areas_lambda_def Let_def map_of_setdefaults split: option.splits prod.splits)
  then have "map_of (class_areas_lambda hist total_area) Natural_forest \<noteq> None"
    and "map_of (class_areas_lambda hist total_area) Trees \<noteq> None"
    by (simp_all add: CLASS_NAMES_def)
  then show ?thesis
    by (auto simp: calculate_area_statistics_lambda_def dict_get_def Let_def split: option.splits)
qed

lemma split_cloudy_run:
  "split_boundary_box (intersects_polygon cloudy_run) (bbox cloudy_run) 30 = Inr [bbox cloudy_run]"
  by (simp add: split_boundary_box_def cloudy_run_def width_km_small_box height_km_small_box)

lemma fetch_cloudy_run:
  "fetch_all cloudy_run [bbox cloudy_run] =
     [Some \<lparr>index = 0, png_image = 0, shapely_sub_rect = bbox cloudy_run\<rparr>]"
  by (simp add: fetch_all_def process_sub_polygon_def export_sub_polygon_as_png_def
      default_max_retries_def cloudy_run_def numeral_3_eq_3)

lemma canvas_size_lambda_cloudy_run: "canvas_size_lambda (bbox cloudy_run) = (1110, 1110)"
proof -
  have w: "width_m (bbox cloudy_run) = 11100"
    by (simp add: width_m_def cloudy_run_def box_def radians_def)
  have h: "height_m (bbox cloudy_run) = 11100"
    by (simp add: height_m_def cloudy_run_def box_def)
  have s: "initial_scale (bbox cloudy_run) = 10"
    by (simp add: initial_scale_def w h)
  show ?thesis
    by (simp add: canvas_size_lambda_def s w h py_int_def max_dim_def)
qed

lemma export_lambda_cloudy_run:
  "process_and_export_image_lambda cloudy_run d dir =
     Inr (Some \<lparr>canvas = (1110, 1110), pastes = [(0, (0, 0), (1109, 1109))],
                outfile = image_file_name (bbox cloudy_run) dir d\<rparr>)"
proof -
  have px: "geo_to_pixel_lambda (bbox cloudy_run) (1110, 1110) 0 (1/20) = Inr (0, 0)"
    "geo_to_pixel_lambda (bbox cloudy_run) (1110, 1110) (1/10) (- (1/20)) = Inr (1109, 1109)"
    by (simp_all add: geo_to_pixel_lambda_def geo2px_def cloudy_run_def box_def py_int_def)
  have b: "minx (bbox cloudy_run) = 0" "maxy (bbox cloudy_run) = 1/20"
    "maxx (bbox cloudy_run) = 1/10" "miny (bbox cloudy_run) = - (1/20)"
    by (simp_all add: cloudy_run_def box_def)
  have m: "merge_images_properly_lambda (bbox cloudy_run)
             [Some \<lparr>index = 0, png_image = (0::nat), shapely_sub_rect = bbox cloudy_run\<rparr>] dir d =
           Inr (Some \<lparr>canvas = (1110, 1110), pastes = [(0, (0, 0), (1109, 1109))],
                outfile = image_file_name (bbox cloudy_run) dir d\<rparr>)"
    by (simp add: merge_images_properly_lambda_def List.map_filter_simps
        canvas_size_lambda_cloudy_run b px)
  show ?thesis
    by (simp add: process_and_export_image_lambda_def split_cloudy_run fetch_cloudy_run m)
qed


text \<open>
  A cloud cover of 30 percent is below the threshold of the second file: the run writes
  the statistics and the image.
\<close>

lemma process_lambda_cloudy_run:
  "\<exists>st. process_natural_forest_classification_lambda cloudy_run dir =
     (Inr (Some (Some (image_file_name (bbox cloudy_run) dir ''2024-05-01''),
                 stats_file_name dir ''2024-05-01'', ''2024-05-01'')),
      [Stats_json (stats_file_name dir ''2024-05-01'') st,
       Classification_png \<lparr>canvas = (1110, 1110), pastes = [(0, (0, 0), (1109, 1109))],
                outfile = image_file_name (bbox cloudy_run) dir ''2024-05-01''\<rparr>])"
proof -
  obtain st where st: "calculate_area_statistics_lambda example_hist 100 ''2024-05-01'' dir =
      Inr (st, stats_file_name dir ''2024-05-01'')"
    using calculate_area_statistics_lambda_returns by blast
  have f: "s2_size cloudy_run = 1" "dw_size cloudy_run = 1" "histogram cloudy_run = example_hist"
    "CORRECT_AREA cloudy_run = 100" "scene_date cloudy_run = ''2024-05-01''"
    by (simp_all add: cloudy_run_def s2_size_def scene_date_def s2_def)
  show ?thesis
    unfolding process_natural_forest_classification_lambda_def f st export_lambda_cloudy_run
    by simp
qed










subsection \<open>The run: no tile fetched\<close>

lemma export_all_fail:
  assumes "list_all (\<lambda>k. \<not> succeeds (outcome k)) [0..<nat default_max_retries]"
  shows "fst (export_sub_polygon_as_png outcome default_max_retries) = None"
proof -
  have "\<forall>i<nat default_max_retries. \<not> succeeds (outcome (0 + i))"
    using assms by (simp add: list_all_iff)
  then show ?thesis
    unfolding export_sub_polygon_as_png_def by (simp add: retry_loop_all_fail)
qed

lemma fetch_all_fail:
  assumes "list_all (\<lambda>i. list_all (\<lambda>k. \<not> succeeds (tile_attempts env i k))
                            [0..<nat default_max_retries])
            [0..<length sub_rects]"
  shows "fetch_all env sub_rects = []"
proof -
  have "process_sub_polygon env a = None" if "a \<in> set (enumerate 0 sub_rects)" for a
  proof -
    obtain i r where a: "a = (i, r)" by (cases a)
    with that have "i < length sub_rects" by (simp add: in_set_enumerate_eq)
    with assms have "list_all (\<lambda>k. \<not> succeeds (tile_attempts env i k)) [0..<nat default_max_retries]"
      by (simp add: list_all_iff)
    then show ?thesis
      by (simp add: process_sub_polygon_def a export_all_fail)
  qed
  then show ?thesis
    by (simp add: fetch_all_def filter_empty_conv)
qed

lemma merge_images_properly_empty:
  "merge_images_properly b [] output_dir image_date = Inr None"
  by (simp add: merge_images_properly_def List.map_filter_simps)

lemma process_and_export_image_all_fail:
  assumes "all_tiles_fail env"
  shows "process_and_export_image env d dir = Inr None
         \<or> (\<exists>e. process_and_export_image env d dir = Inl e)"
proof (cases "split_boundary_box (intersects_polygon env) (bbox env) 30")
  case (Inl e)
  then show ?thesis by (simp add: process_and_export_image_def)
next
  case (Inr sub_rects)
  with assms have "fetch_all env sub_rects = []"
    by (intro fetch_all_fail) (simp add: all_tiles_fail_def)
  then show ?thesis
    by (simp add: process_and_export_image_def Inr merge_images_properly_empty)
qed

lemma upload_and_answer_no_image:
  "upload_and_answer written (None, stats_file, d) =
     (\<lparr>statusCode = 500, body = Error_body (Exception_text ValueError)\<rparr>, [])"
  by (simp add: upload_and_answer_def)

text \<open>
  Claim C3. \<open>merge_images_properly\<close> returns \<^verbatim>\<open>None\<close> for an empty list of results. For
  every run that reaches the tile stage (a scene is there, its cloud cover is not above
  the threshold, a Dynamic World image is there) and in which every pass of every planned
  tile fails, no tile result is collected, \<open>process_and_export_image\<close> returns no mosaic,
  and the handler answers with status 500 and an error body, having uploaded nothing.
\<close>

theorem all_tiles_fail_is_fatal:
  assumes gates: "s2_size env \<noteq> 0" "\<not> cloud_cover env > 1" "dw_size env \<noteq> 0"
    and fail: "all_tiles_fail env"
  shows "merge_images_properly (bbox env) [] output_dir d = Inr None
       \<and> (\<forall>sub_rects. split_boundary_box (intersects_polygon env) (bbox env) 30 = Inr sub_rects
             \<longrightarrow> fetch_all env sub_rects = [])
       \<and> (\<forall>m. process_and_export_image env d output_dir \<noteq> Inr (Some m))
       \<and> statusCode (fst (lambda_handler_analysis env)) = 500
       \<and> (\<exists>e. body (fst (lambda_handler_analysis env)) = Error_body (Exception_text e))
       \<and> snd (lambda_handler_analysis env) = []"
proof (intro conjI allI impI)
  show "merge_images_properly (bbox env) [] output_dir d = Inr None"
    by (rule merge_images_properly_empty)
next
  fix sub_rects
  assume "split_boundary_box (intersects_polygon env) (bbox env) 30 = Inr sub_rects"
  with fail show "fetch_all env sub_rects = []"
    by (intro fetch_all_fail) (simp add: all_tiles_fail_def)
next
  fix m
  from process_and_export_image_all_fail [OF fail, of d output_dir]
  show "process_and_export_image env d output_dir \<noteq> Inr (Some m)" by auto
next
  let ?dir = "''/tmp/forest_classification''"
  obtain st where st: "calculate_area_statistics (histogram env) (CORRECT_AREA env)
      (scene_date env) ?dir = Inr (st, stats_file_name ?dir (scene_date env))"
    using calculate_area_statistics_returns by blast
  from process_and_export_image_all_fail [OF fail, of "scene_date env" ?dir]
  have "lambda_handler_analysis env =
          (\<lparr>statusCode = 500, body = Error_body (Exception_text ValueError)\<rparr>, [])
        \<or> (\<exists>e. lambda_handler_analysis env =
          (\<lparr>statusCode = 500, body = Error_body (Exception_text e)\<rparr>, []))"
    using gates
    by (auto simp: lambda_handler_analysis_def process_natural_forest_classification_def st
        upload_and_answer_no_image)
  then have r: "\<exists>e. lambda_handler_analysis env =
          (\<lparr>statusCode = 500, body = Error_body (Exception_text e)\<rparr>, [])"
    by blast
  then show "statusCode (fst (lambda_handler_analysis env)) = 500" by auto
  from r show "\<exists>e. body (fst (lambda_handler_analysis env)) = Error_body (Exception_text e)" by auto
  from r show "snd (lambda_handler_analysis env) = []" by auto
qed

theorem all_tiles_fail_is_fatal_witness:
  "s2_size failing_run \<noteq> 0 \<and> \<not> cloud_cover failing_run > 1 \<and> dw_size failing_run \<noteq> 0
   \<and> all_tiles_fail failing_run
   \<and> fetch_all failing_run [bbox failing_run] = []
   \<and> statusCode (fst (lambda_handler_analysis failing_run)) = 500
   \<and> snd (lambda_handler_analysis failing_run) = []"
proof -
  have sp: "split_boundary_box (intersects_polygon failing_run) (bbox failing_run) 30
            = Inr [bbox failing_run]"
    by (simp add: split_boundary_box_def failing_run_def width_km_small_box height_km_small_box)
  have g: "s2_size failing_run \<noteq> 0" "\<not> cloud_cover failing_run > 1" "dw_size failing_run \<noteq> 0"
    by (simp_all add: failing_run_def s2_size_def cloud_cover_def s2_def)
  have f: "all_tiles_fail failing_run"
    unfolding all_tiles_fail_def sp
    by (simp add: failing_run_def default_max_retries_def numeral_3_eq_3)
  from all_tiles_fail_is_fatal [OF g f, of "''/tmp''" "''2024-05-01''"] sp g f
  show ?thesis by blast
qed

end
